theory Spec2Isabelle
  imports Main "HOL-Library.Word" "HOL-Library.Signed_Division" "HOL-Library.Multiset"
begin

section \<open>Machine types of wayland-shm.c\<close>

text \<open>
  The C file works on \<open>int32_t\<close>, \<open>uint32_t\<close> and \<open>int\<close> (32 bits on every platform the
  library builds for) and on pointers. Integers are 32-bit words read as two's complement
  by \<open>sint\<close>; signed comparisons are \<open><s\<close> and \<open>\<le>s\<close>; \<open>+\<close>, \<open>-\<close> and \<open>*\<close> on words wrap
  around, which is what the compiled code does where C leaves signed overflow undefined.
  Pointers and \<open>size_t\<close> are 64-bit words (LP64); the null pointer is the word 0 and
  \<open>MAP_FAILED\<close> is \<open>(void *) -1\<close>.
\<close>

type_synonym int32 = "32 word"
type_synonym uint32 = "32 word"
type_synonym addr = "64 word"
type_synonym size_t = "64 word"

definition NULL :: addr where
  "NULL = 0"

definition MAP_FAILED :: addr where
  "MAP_FAILED = - 1"

definition INT32_MAX :: int where
  "INT32_MAX = 2147483647"

text \<open>
  Modelled from the spec: the generated protocol header that declares the \<open>wl_shm\<close>
  format and error enumerations is not part of the source file. The whitelist has exactly
  two 32-bit formats, one with alpha and one without; the errors are an invalid format, an
  invalid geometry (\<open>INVALID_STRIDE\<close>) and a failed mapping (\<open>INVALID_FD\<close>). The numbers
  are those of the \<open>wl_shm.format\<close> and \<open>wl_shm.error\<close> enumerations of the protocol.
\<close>

definition WL_SHM_FORMAT_ARGB8888 :: uint32 where
  "WL_SHM_FORMAT_ARGB8888 = 0"

definition WL_SHM_FORMAT_XRGB8888 :: uint32 where
  "WL_SHM_FORMAT_XRGB8888 = 1"

definition WL_SHM_ERROR_INVALID_FORMAT :: uint32 where
  "WL_SHM_ERROR_INVALID_FORMAT = 0"

definition WL_SHM_ERROR_INVALID_STRIDE :: uint32 where
  "WL_SHM_ERROR_INVALID_STRIDE = 1"

definition WL_SHM_ERROR_INVALID_FD :: uint32 where
  "WL_SHM_ERROR_INVALID_FD = 2"

text \<open>
  What the hardware does where C has no defined result: a division by zero traps, and a
  read through a pointer that names no live object of the expected type is a fault.
\<close>

datatype fault = DivisionByZero | InvalidPointer

section \<open>The bounds check of \<open>shm_pool_create_buffer\<close>\<close>

text \<open>
  The condition of the \<open>if\<close> at lines 106 to 108, with C's left-to-right short-circuit
  evaluation written out: a disjunct is evaluated only when all disjuncts before it are
  false. The result \<open>Inr True\<close> means that the condition holds (the request is rejected),
  \<open>Inr False\<close> that it does not (the request goes on), \<open>Inl DivisionByZero\<close> that the
  division \<open>INT32_MAX / stride\<close> is evaluated with \<open>stride = 0\<close>. The quotient of two
  \<open>int\<close> values truncates towards zero (\<open>sdiv\<close>); the product \<open>stride * height\<close> and the
  difference are 32-bit operations.
\<close>

definition bounds_check :: "int32 \<Rightarrow> int32 \<Rightarrow> int32 \<Rightarrow> int32 \<Rightarrow> int32 \<Rightarrow> fault + bool" where
  "bounds_check offset width height stride size_p =
     (if offset <s 0 then Inr True
      else if width \<le>s 0 then Inr True
      else if height \<le>s 0 then Inr True
      else if stride <s width then Inr True
      else if stride = 0 then Inl DivisionByZero
      else if INT32_MAX sdiv sint stride \<le> sint height then Inr True
      else Inr (size_p - stride * height <s offset))"

section \<open>Objects, handles and the observable calls\<close>

text \<open>
  \<open>struct wl_shm_pool\<close> and \<open>struct wl_shm_buffer\<close>, field by field. A field \<open>f\<close> of the
  pool is \<open>pool_f\<close>, a field \<open>f\<close> of the buffer is \<open>buffer_f\<close>.
\<close>

record wl_shm_pool =
  pool_resource :: addr
  pool_refcount :: int32
  pool_data :: addr
  pool_size :: int32

record wl_shm_buffer =
  buffer_resource :: addr
  buffer_width :: int32
  buffer_height :: int32
  buffer_stride :: int32
  buffer_format :: uint32
  buffer_offset :: int32
  buffer_pool :: addr

text \<open>
  Modelled from the spec: the resource layer (\<open>wl_resource_create\<close>,
  \<open>wl_resource_set_implementation\<close>, \<open>wl_resource_get_user_data\<close>,
  \<open>wl_resource_instance_of\<close>, \<open>wl_resource_destroy\<close>) is not part of the source file. A
  handle is bound to an interface, an operation table (its implementation), user data and a
  destructor callback; \<open>get_user_data\<close> reads the user data, the instance check compares
  interface and implementation, and destroying a handle runs its destructor callback.
\<close>

datatype interface = wl_buffer_interface | wl_shm_pool_interface | wl_shm_interface
  | foreign_interface nat

datatype implementation = shm_buffer_interface | shm_pool_interface | shm_interface
  | foreign_implementation nat

datatype destructor = destroy_buffer_callback | destroy_pool_callback | no_destructor

record wl_resource =
  resource_interface :: interface
  resource_implementation :: implementation
  resource_data :: addr
  resource_destroy :: destructor

text \<open>
  The state the file works on: the live pool objects, the live buffer objects and the live
  handles, each addressed by its pointer. \<open>free\<close> removes an object.
\<close>

record shm_state =
  pools :: "addr \<rightharpoonup> wl_shm_pool"
  buffers :: "addr \<rightharpoonup> wl_shm_buffer"
  resources :: "addr \<rightharpoonup> wl_resource"

text \<open>
  The calls into the operating system, the allocator and the peer connection, in the order
  the code makes them. The arguments are those of the C call: \<open>Mmap size fd\<close>,
  \<open>Mremap data old_size new_size\<close>, \<open>Munmap data size\<close>, \<open>PostError resource code\<close>,
  \<open>PostNoMemory client\<close>.
\<close>

datatype event =
    Malloc size_t
  | Free addr
  | Mmap int32 int
  | Mremap addr int32 int32
  | Munmap addr int32
  | Close int
  | PostError addr uint32
  | PostNoMemory addr

text \<open>
  \<open>sizeof (struct wl_shm_pool)\<close> and \<open>sizeof (struct wl_shm_buffer)\<close> on LP64. No
  statement below depends on the two numbers.
\<close>

definition sizeof_wl_shm_pool :: size_t where
  "sizeof_wl_shm_pool = 32"

definition sizeof_wl_shm_buffer :: size_t where
  "sizeof_wl_shm_buffer = 40"

section \<open>Reference counting and destruction\<close>

text \<open>
  \<open>shm_pool_unref\<close> (lines 55 to 64): decrement, return while the count is not zero,
  otherwise unmap the region and free the pool.
\<close>

definition shm_pool_unref :: "addr \<Rightarrow> shm_state \<Rightarrow> fault + (event list \<times> shm_state)" where
  "shm_pool_unref pool s =
     (case pools s pool of
        None \<Rightarrow> Inl InvalidPointer
      | Some pl \<Rightarrow>
          let pl' = pl\<lparr>pool_refcount := pool_refcount pl - 1\<rparr> in
          if pool_refcount pl' \<noteq> 0
          then Inr ([], s\<lparr>pools := (pools s)(pool \<mapsto> pl')\<rparr>)
          else Inr ([Munmap (pool_data pl') (pool_size pl'), Free pool],
                    s\<lparr>pools := (pools s)(pool := None)\<rparr>))"

text \<open>\<open>destroy_buffer\<close> (lines 66 to 74), the destructor callback of a buffer handle.\<close>

definition destroy_buffer :: "addr \<Rightarrow> shm_state \<Rightarrow> fault + (event list \<times> shm_state)" where
  "destroy_buffer resource s =
     (case resources s resource of
        None \<Rightarrow> Inl InvalidPointer
      | Some r \<Rightarrow>
          let buffer = resource_data r in
          (case buffers s buffer of
             None \<Rightarrow> Inl InvalidPointer
           | Some b \<Rightarrow>
               (case (if buffer_pool b \<noteq> NULL then shm_pool_unref (buffer_pool b) s
                      else Inr ([], s)) of
                  Inl f \<Rightarrow> Inl f
                | Inr (ev, s') \<Rightarrow>
                    Inr (ev @ [Free buffer], s'\<lparr>buffers := (buffers s')(buffer := None)\<rparr>))))"

text \<open>\<open>destroy_pool\<close> (lines 144 to 150), the destructor callback of a pool handle.\<close>

definition destroy_pool :: "addr \<Rightarrow> shm_state \<Rightarrow> fault + (event list \<times> shm_state)" where
  "destroy_pool resource s =
     (case resources s resource of
        None \<Rightarrow> Inl InvalidPointer
      | Some r \<Rightarrow> shm_pool_unref (resource_data r) s)"

text \<open>
  Modelled from the spec: \<open>wl_resource_destroy\<close> of the resource layer runs the destructor
  callback the handle was bound with and then invalidates the handle.
\<close>

definition wl_resource_destroy :: "addr \<Rightarrow> shm_state \<Rightarrow> fault + (event list \<times> shm_state)" where
  "wl_resource_destroy resource s =
     (case resources s resource of
        None \<Rightarrow> Inl InvalidPointer
      | Some r \<Rightarrow>
          (case (case resource_destroy r of
                   destroy_buffer_callback \<Rightarrow> destroy_buffer resource s
                 | destroy_pool_callback \<Rightarrow> destroy_pool resource s
                 | no_destructor \<Rightarrow> Inr ([], s)) of
             Inl f \<Rightarrow> Inl f
           | Inr (ev, s') \<Rightarrow> Inr (ev, s'\<lparr>resources := (resources s')(resource := None)\<rparr>)))"

text \<open>The two \<open>destroy\<close> request handlers (lines 76 to 80 and 152 to 156).\<close>

definition shm_buffer_destroy :: "addr \<Rightarrow> addr \<Rightarrow> shm_state \<Rightarrow> fault + (event list \<times> shm_state)" where
  "shm_buffer_destroy client resource s = wl_resource_destroy resource s"

definition shm_pool_destroy :: "addr \<Rightarrow> addr \<Rightarrow> shm_state \<Rightarrow> fault + (event list \<times> shm_state)" where
  "shm_pool_destroy client resource s = wl_resource_destroy resource s"

section \<open>Requests on a pool\<close>

text \<open>
  \<open>shm_pool_create_buffer\<close> (lines 86 to 142). The first two arguments are what the
  environment answers: the pointer \<open>malloc\<close> returns and the pointer
  \<open>wl_resource_create\<close> returns (\<open>NULL\<close> when it fails). The pool object is read
  where the bounds check begins.
\<close>

definition shm_pool_create_buffer ::
  "addr \<Rightarrow> addr \<Rightarrow> addr \<Rightarrow> addr \<Rightarrow> uint32 \<Rightarrow> int32 \<Rightarrow> int32 \<Rightarrow> int32 \<Rightarrow> int32 \<Rightarrow> uint32 \<Rightarrow>
   shm_state \<Rightarrow> fault + (event list \<times> shm_state)" where
  "shm_pool_create_buffer malloc_result create_result client resource id' offset width height
     stride format s =
     (case resources s resource of
        None \<Rightarrow> Inl InvalidPointer
      | Some r \<Rightarrow>
          let pool = resource_data r in
          if format \<noteq> WL_SHM_FORMAT_ARGB8888 \<and> format \<noteq> WL_SHM_FORMAT_XRGB8888
          then Inr ([PostError resource WL_SHM_ERROR_INVALID_FORMAT], s)
          else
            (case pools s pool of
               None \<Rightarrow> Inl InvalidPointer
             | Some pl \<Rightarrow>
                 (case bounds_check offset width height stride (pool_size pl) of
                    Inl f \<Rightarrow> Inl f
                  | Inr True \<Rightarrow> Inr ([PostError resource WL_SHM_ERROR_INVALID_STRIDE], s)
                  | Inr False \<Rightarrow>
                      let buffer = malloc_result in
                      if buffer = NULL
                      then Inr ([Malloc sizeof_wl_shm_buffer, PostNoMemory client], s)
                      else
                        let b = \<lparr>buffer_resource = create_result, buffer_width = width,
                                 buffer_height = height, buffer_stride = stride,
                                 buffer_format = format, buffer_offset = offset,
                                 buffer_pool = pool\<rparr>;
                            s1 = s\<lparr>pools := (pools s)
                                   (pool \<mapsto> pl\<lparr>pool_refcount := pool_refcount pl + 1\<rparr>)\<rparr>
                        in
                        if create_result = NULL
                        then (case shm_pool_unref pool s1 of
                                Inl f \<Rightarrow> Inl f
                              | Inr (ev, s2) \<Rightarrow>
                                  Inr ([Malloc sizeof_wl_shm_buffer, PostNoMemory client] @ ev
                                         @ [Free buffer], s2))
                        else Inr ([Malloc sizeof_wl_shm_buffer],
                                  s1\<lparr>buffers := (buffers s1)(buffer \<mapsto> b),
                                     resources := (resources s1)(create_result \<mapsto>
                                       \<lparr>resource_interface = wl_buffer_interface,
                                        resource_implementation = shm_buffer_interface,
                                        resource_data = buffer,
                                        resource_destroy = destroy_buffer_callback\<rparr>)\<rparr>))))"

text \<open>
  \<open>shm_pool_resize\<close> (lines 158 to 176). The first argument is what \<open>mremap\<close> returns.
\<close>

definition shm_pool_resize ::
  "addr \<Rightarrow> addr \<Rightarrow> addr \<Rightarrow> int32 \<Rightarrow> shm_state \<Rightarrow> fault + (event list \<times> shm_state)" where
  "shm_pool_resize mremap_result client resource size_new s =
     (case resources s resource of
        None \<Rightarrow> Inl InvalidPointer
      | Some r \<Rightarrow>
          let pool = resource_data r in
          (case pools s pool of
             None \<Rightarrow> Inl InvalidPointer
           | Some pl \<Rightarrow>
               let data = mremap_result in
               if data = MAP_FAILED
               then Inr ([Mremap (pool_data pl) (pool_size pl) size_new,
                          PostError resource WL_SHM_ERROR_INVALID_FD], s)
               else Inr ([Mremap (pool_data pl) (pool_size pl) size_new],
                         s\<lparr>pools := (pools s)
                             (pool \<mapsto> pl\<lparr>pool_data := data, pool_size := size_new\<rparr>)\<rparr>)))"

section \<open>Creating a pool\<close>

text \<open>
  The two labels at the end of \<open>shm_create_pool\<close> (lines 230 to 233): \<open>err_close\<close> closes
  the descriptor and falls through to \<open>err_free\<close>, which frees the pool object.
\<close>

definition err_free :: "addr \<Rightarrow> event list" where
  "err_free pool = [Free pool]"

definition err_close :: "int \<Rightarrow> addr \<Rightarrow> event list" where
  "err_close fd pool = Close fd # err_free pool"

text \<open>
  \<open>shm_create_pool\<close> (lines 184 to 234). The first three arguments are what the
  environment answers: the pointers returned by \<open>malloc\<close>, by \<open>mmap\<close> and by
  \<open>wl_resource_create\<close>. The handle \<open>resource\<close> of the \<open>wl_shm\<close> global is only passed
  on to the error report.
\<close>

definition shm_create_pool ::
  "addr \<Rightarrow> addr \<Rightarrow> addr \<Rightarrow> addr \<Rightarrow> addr \<Rightarrow> uint32 \<Rightarrow> int \<Rightarrow> int32 \<Rightarrow> shm_state \<Rightarrow>
   event list \<times> shm_state" where
  "shm_create_pool malloc_result mmap_result create_result client resource id' fd size_new s =
     (let pool = malloc_result in
      if pool = NULL
      then ([Malloc sizeof_wl_shm_pool, PostNoMemory client] @ err_close fd pool, s)
      else if size_new \<le>s 0
      then ([Malloc sizeof_wl_shm_pool, PostError resource WL_SHM_ERROR_INVALID_STRIDE]
              @ err_free pool, s)
      else
        let pl = \<lparr>pool_resource = create_result, pool_refcount = 1,
                  pool_data = mmap_result, pool_size = size_new\<rparr>
        in
        if pool_data pl = MAP_FAILED
        then ([Malloc sizeof_wl_shm_pool, Mmap size_new fd,
               PostError resource WL_SHM_ERROR_INVALID_FD] @ err_free pool, s)
        else if pool_resource pl = NULL
        then ([Malloc sizeof_wl_shm_pool, Mmap size_new fd, Close fd, PostNoMemory client,
               Munmap (pool_data pl) (pool_size pl), Free pool], s)
        else ([Malloc sizeof_wl_shm_pool, Mmap size_new fd, Close fd],
              s\<lparr>pools := (pools s)(pool \<mapsto> pl),
                resources := (resources s)(create_result \<mapsto>
                  \<lparr>resource_interface = wl_shm_pool_interface,
                   resource_implementation = shm_pool_interface,
                   resource_data = pool,
                   resource_destroy = destroy_pool_callback\<rparr>)\<rparr>))"

section \<open>The public buffer interface\<close>

text \<open>
  \<open>wl_shm_buffer_create\<close> (lines 267 to 305). The result is the returned pointer, the
  calls made and the new state. The argument of \<open>malloc\<close> is
  \<open>sizeof *buffer + stride * height\<close>: a 32-bit product, converted to \<open>size_t\<close> by sign
  extension and added to the size of the header.
\<close>

definition wl_shm_buffer_create ::
  "addr \<Rightarrow> addr \<Rightarrow> addr \<Rightarrow> uint32 \<Rightarrow> int32 \<Rightarrow> int32 \<Rightarrow> int32 \<Rightarrow> uint32 \<Rightarrow> shm_state \<Rightarrow>
   addr \<times> event list \<times> shm_state" where
  "wl_shm_buffer_create malloc_result create_result client id' width height stride format s =
     (if format \<noteq> WL_SHM_FORMAT_ARGB8888 \<and> format \<noteq> WL_SHM_FORMAT_XRGB8888
      then (NULL, [], s)
      else
        let request = sizeof_wl_shm_buffer + scast (stride * height);
            buffer = malloc_result
        in
        if buffer = NULL then (NULL, [Malloc request], s)
        else
          let b = \<lparr>buffer_resource = create_result, buffer_width = width,
                   buffer_height = height, buffer_stride = stride,
                   buffer_format = format, buffer_offset = 0, buffer_pool = NULL\<rparr>
          in
          if buffer_resource b = NULL then (NULL, [Malloc request, Free buffer], s)
          else (buffer, [Malloc request],
                s\<lparr>buffers := (buffers s)(buffer \<mapsto> b),
                  resources := (resources s)(create_result \<mapsto>
                    \<lparr>resource_interface = wl_buffer_interface,
                     resource_implementation = shm_buffer_interface,
                     resource_data = buffer,
                     resource_destroy = destroy_buffer_callback\<rparr>)\<rparr>))"

text \<open>
  Modelled from the spec: \<open>wl_resource_instance_of\<close> of the resource layer, the identity
  check "is this handle of this interface and bound to this implementation".
\<close>

definition wl_resource_instance_of :: "wl_resource \<Rightarrow> interface \<Rightarrow> implementation \<Rightarrow> bool" where
  "wl_resource_instance_of r interface implementation \<longleftrightarrow>
     resource_interface r = interface \<and> resource_implementation r = implementation"

text \<open>\<open>wl_shm_buffer_get\<close> (lines 307 to 318).\<close>

definition wl_shm_buffer_get :: "addr \<Rightarrow> shm_state \<Rightarrow> fault + addr" where
  "wl_shm_buffer_get resource s =
     (if resource = NULL then Inr NULL
      else
        (case resources s resource of
           None \<Rightarrow> Inl InvalidPointer
         | Some r \<Rightarrow>
             if wl_resource_instance_of r wl_buffer_interface shm_buffer_interface
             then Inr (resource_data r)
             else Inr NULL))"

text \<open>
  \<open>wl_shm_buffer_get_data\<close> (lines 326 to 333): the pool's current base plus the offset
  (a \<open>char *\<close> plus an \<open>int\<close>), or the byte after the header for a buffer without pool.
\<close>

definition wl_shm_buffer_get_data :: "addr \<Rightarrow> shm_state \<Rightarrow> fault + addr" where
  "wl_shm_buffer_get_data buffer s =
     (case buffers s buffer of
        None \<Rightarrow> Inl InvalidPointer
      | Some b \<Rightarrow>
          if buffer_pool b \<noteq> NULL
          then (case pools s (buffer_pool b) of
                  None \<Rightarrow> Inl InvalidPointer
                | Some pl \<Rightarrow> Inr (pool_data pl + scast (buffer_offset b)))
          else Inr (buffer + sizeof_wl_shm_buffer))"

section \<open>Sequences of requests\<close>

text \<open>
  A creation request as the peer sends it, together with the two answers of the environment
  for it: \<open>(malloc_result, create_result, id, offset, width, height, stride, format)\<close>.
\<close>

type_synonym create_request =
  "addr \<times> addr \<times> uint32 \<times> int32 \<times> int32 \<times> int32 \<times> int32 \<times> uint32"

definition request_buffer :: "create_request \<Rightarrow> addr" where
  "request_buffer q = fst q"

definition request_handle :: "create_request \<Rightarrow> addr" where
  "request_handle q = fst (snd q)"

text \<open>Running one creation request on the pool handle \<open>resource\<close>.\<close>

fun create_one :: "addr \<Rightarrow> addr \<Rightarrow> create_request \<Rightarrow> shm_state \<Rightarrow> fault + (event list \<times> shm_state)" where
  "create_one client resource (m, c, id', offset, width, height, stride, format) s =
     shm_pool_create_buffer m c client resource id' offset width height stride format s"

text \<open>
  A creation request succeeds on a pool of size \<open>size_p\<close> when the format is on the
  whitelist, the bounds check passes and both the allocation and the handle are obtained.
\<close>

fun creation_succeeds :: "int32 \<Rightarrow> create_request \<Rightarrow> bool" where
  "creation_succeeds size_p (m, c, id', offset, width, height, stride, format) \<longleftrightarrow>
     (format = WL_SHM_FORMAT_ARGB8888 \<or> format = WL_SHM_FORMAT_XRGB8888) \<and>
     bounds_check offset width height stride size_p = Inr False \<and>
     m \<noteq> NULL \<and> c \<noteq> NULL"

text \<open>Requests are served one at a time; a fault ends the run.\<close>

fun create_buffers :: "addr \<Rightarrow> addr \<Rightarrow> create_request list \<Rightarrow> shm_state \<Rightarrow> fault + (event list \<times> shm_state)" where
  "create_buffers client resource [] s = Inr ([], s)"
| "create_buffers client resource (q # qs) s =
     (case create_one client resource q s of
        Inl f \<Rightarrow> Inl f
      | Inr (ev, s') \<Rightarrow>
          (case create_buffers client resource qs s' of
             Inl f \<Rightarrow> Inl f
           | Inr (ev', s'') \<Rightarrow> Inr (ev @ ev', s'')))"

text \<open>
  Destroying handles one after the other, whether by a \<open>destroy\<close> request (both request
  handlers are \<open>wl_resource_destroy\<close>) or when the owner of the handles goes away.
\<close>

fun destroy_handles :: "addr list \<Rightarrow> shm_state \<Rightarrow> fault + (event list \<times> shm_state)" where
  "destroy_handles [] s = Inr ([], s)"
| "destroy_handles (h # hs) s =
     (case wl_resource_destroy h s of
        Inl f \<Rightarrow> Inl f
      | Inr (ev, s') \<Rightarrow>
          (case destroy_handles hs s' of
             Inl f \<Rightarrow> Inl f
           | Inr (ev', s'') \<Rightarrow> Inr (ev @ ev', s'')))"

text \<open>The \<open>munmap\<close> calls of a run, in order.\<close>

fun unmaps :: "event list \<Rightarrow> (addr \<times> int32) list" where
  "unmaps [] = []"
| "unmaps (Munmap d n # ev) = (d, n) # unmaps ev"
| "unmaps (e # ev) = unmaps ev"

section \<open>Handles that hold a reference to a pool\<close>

text \<open>
  The user data of a handle, if the handle is live.
\<close>

definition handle_data :: "shm_state \<Rightarrow> addr \<Rightarrow> addr option" where
  "handle_data s h = map_option resource_data (resources s h)"

text \<open>
  A handle holds a reference to \<open>pool\<close> when destroying it reaches \<open>shm_pool_unref\<close> on
  that pool: it is a pool handle whose user data is the pool, or a buffer handle whose user
  data is a live buffer (an object other than the pool) with \<open>buffer->pool\<close> set to the
  pool.
\<close>

definition holds_reference :: "addr \<Rightarrow> shm_state \<Rightarrow> addr \<Rightarrow> bool" where
  "holds_reference pool s h =
     (case resources s h of
        None \<Rightarrow> False
      | Some r \<Rightarrow>
          (case resource_destroy r of
             destroy_pool_callback \<Rightarrow> resource_data r = pool
           | destroy_buffer_callback \<Rightarrow>
               resource_data r \<noteq> pool \<and>
               (case buffers s (resource_data r) of
                  None \<Rightarrow> False
                | Some b \<Rightarrow> buffer_pool b = pool)
           | no_destructor \<Rightarrow> False))"

text \<open>
  The handles \<open>hs\<close> are the references to \<open>pool\<close>: each holds one, and no two of them
  share their user data.
\<close>

definition references :: "addr \<Rightarrow> shm_state \<Rightarrow> addr list \<Rightarrow> bool" where
  "references pool s hs \<longleftrightarrow>
     distinct (map (handle_data s) hs) \<and> (\<forall>h \<in> set hs. holds_reference pool s h)"

section \<open>Example states\<close>

text \<open>A pool of 4096 bytes at address 4096, mapped at 65536, with its handle 16.\<close>

definition example_pool :: wl_shm_pool where
  "example_pool = \<lparr>pool_resource = 16, pool_refcount = 1, pool_data = 65536, pool_size = 4096\<rparr>"

definition example_pool_handle :: wl_resource where
  "example_pool_handle =
     \<lparr>resource_interface = wl_shm_pool_interface, resource_implementation = shm_pool_interface,
      resource_data = 4096, resource_destroy = destroy_pool_callback\<rparr>"

definition example_state :: shm_state where
  "example_state =
     \<lparr>pools = [4096 \<mapsto> example_pool], buffers = Map.empty,
      resources = [16 \<mapsto> example_pool_handle]\<rparr>"

text \<open>
  The same pool after a buffer of 32 by 32 pixels with a stride of 128 bytes has been
  created at offset 0: the buffer object at 8192 with its handle 32.
\<close>

definition example_buffer :: wl_shm_buffer where
  "example_buffer =
     \<lparr>buffer_resource = 32, buffer_width = 32, buffer_height = 32, buffer_stride = 128,
      buffer_format = WL_SHM_FORMAT_ARGB8888, buffer_offset = 0, buffer_pool = 4096\<rparr>"

definition example_buffer_handle :: wl_resource where
  "example_buffer_handle =
     \<lparr>resource_interface = wl_buffer_interface, resource_implementation = shm_buffer_interface,
      resource_data = 8192, resource_destroy = destroy_buffer_callback\<rparr>"

definition example_state_with_buffer :: shm_state where
  "example_state_with_buffer =
     \<lparr>pools = [4096 \<mapsto> example_pool\<lparr>pool_refcount := 2\<rparr>],
      buffers = [8192 \<mapsto> example_buffer],
      resources = [16 \<mapsto> example_pool_handle, 32 \<mapsto> example_buffer_handle]\<rparr>"

text \<open>The state before anything is created, and two creation requests for one pool.\<close>

definition empty_state :: shm_state where
  "empty_state = \<lparr>pools = Map.empty, buffers = Map.empty, resources = Map.empty\<rparr>"

definition example_requests :: "create_request list" where
  "example_requests =
     [(8192, 32, 3, 0, 32, 16, 128, WL_SHM_FORMAT_ARGB8888),
      (12288, 48, 4, 2048, 32, 16, 128, WL_SHM_FORMAT_XRGB8888)]"

section \<open>The bounds check: arithmetic\<close>

lemma sint_int32_range: "- 2147483648 \<le> sint (x::int32) \<and> sint x \<le> 2147483647"
  using sint_ge[of x] sint_lt[of x] by simp

lemma sdiv_pos: "0 \<le> a \<Longrightarrow> 0 < b \<Longrightarrow> (a::int) sdiv b = a div b"
  by (simp add: signed_divide_int_def sgn_if)

lemma div_le_iff: 
  assumes b: "0 < (b::int)"
  shows "(m div b \<le> h) = (m < b * (h + 1))"
proof
  assume le: "m div b \<le> h"
  have "m = b * (m div b) + m mod b" by simp
  moreover have "m mod b < b" using b by simp
  moreover have "b * (m div b) \<le> b * h" using le b by (simp add: mult_left_mono)
  ultimately have "m < b * h + b" by linarith
  then show "m < b * (h + 1)" by (simp add: algebra_simps)
next
  assume lt: "m < b * (h + 1)"
  show "m div b \<le> h"
  proof (rule ccontr)
    assume "\<not> m div b \<le> h"
    then have "h + 1 \<le> m div b" by simp
    then have "b * (h + 1) \<le> b * (m div b)" using b by (simp add: mult_left_mono)
    moreover have "m = b * (m div b) + m mod b" by simp
    moreover have "0 \<le> m mod b" using b by simp
    ultimately show False using lt by linarith
  qed
qed

lemma quotient_test:
  assumes "0 < sint (stride::int32)"
  shows "(INT32_MAX sdiv sint stride \<le> sint (height::int32)) = (INT32_MAX < sint stride * (sint height + 1))"
  using assms by (simp add: sdiv_pos INT32_MAX_def div_le_iff)

lemma mult_nowrap:
  assumes "0 < sint (s::int32)" "0 < sint (h::int32)" "sint s * sint h \<le> 2147483647"
  shows "sint (s * h) = sint s * sint h"
proof -
  have "0 \<le> sint s * sint h" using assms by simp
  then show ?thesis using assms(3)
    by (simp add: sint_word_mult signed_take_bit_int_eq_self)
qed

lemma diff_nowrap:
  assumes "0 \<le> sint (a::int32)" "0 \<le> sint (b::int32)"
  shows "sint (a - b) = sint a - sint b"
proof -
  have "sint a - sint b \<le> 2147483647" "- 2147483648 \<le> sint a - sint b"
    using assms sint_int32_range[of a] sint_int32_range[of b] by auto
  then show ?thesis
    by (simp add: sint_word_diff signed_take_bit_int_eq_self)
qed

lemma bounds_check_prefix:
  "bounds_check offset width height stride size_p =
     (if sint offset < 0 \<or> sint width \<le> 0 \<or> sint height \<le> 0 \<or> sint stride < sint width
         \<or> INT32_MAX < sint stride * (sint height + 1) then Inr True
      else Inr (sint (size_p - stride * height) < sint offset))"
proof (cases "sint offset < 0 \<or> sint width \<le> 0 \<or> sint height \<le> 0 \<or> sint stride < sint width")
  case True
  then show ?thesis by (auto simp: bounds_check_def word_sless_alt word_sle_eq)
next
  case False
  then have pos: "0 < sint stride" by simp
  then have nz: "stride \<noteq> 0" by auto
  show ?thesis using False nz quotient_test[OF pos, of height]
    by (simp add: bounds_check_def word_sless_alt word_sle_eq)
qed

lemma footprint_exact:
  assumes "0 < sint (stride::int32)" "0 < sint (height::int32)" "sint stride * (sint height + 1) \<le> INT32_MAX"
  shows "sint (stride * height) = sint stride * sint height" "0 < sint (stride * height)"
proof -
  have "sint stride * sint height \<le> sint stride * (sint height + 1)"
    using assms(1) by (simp add: algebra_simps)
  then have le: "sint stride * sint height \<le> 2147483647" using assms(3) by (simp add: INT32_MAX_def)
  show eq: "sint (stride * height) = sint stride * sint height"
    by (rule mult_nowrap[OF assms(1,2) le])
  show "0 < sint (stride * height)" using assms(1,2) by (simp add: eq)
qed

lemma bounds_check_accepts_iff:
  assumes "0 \<le> sint size_p"
  shows "bounds_check offset width height stride size_p = Inr False \<longleftrightarrow>
     0 \<le> sint offset \<and> 0 < sint width \<and> 0 < sint height \<and> sint width \<le> sint stride \<and>
     sint stride * (sint height + 1) \<le> INT32_MAX \<and>
     sint offset + sint stride * sint height \<le> sint size_p"
proof (cases "sint offset < 0 \<or> sint width \<le> 0 \<or> sint height \<le> 0 \<or> sint stride < sint width
         \<or> INT32_MAX < sint stride * (sint height + 1)")
  case True
  then show ?thesis by (auto simp: bounds_check_prefix)
next
  case False
  then have st: "0 < sint stride" and h: "0 < sint height"
    and m: "sint stride * (sint height + 1) \<le> INT32_MAX" by auto
  note fp = footprint_exact[OF st h m]
  have "sint (size_p - stride * height) = sint size_p - sint stride * sint height"
    using diff_nowrap[of size_p "stride * height"] assms fp by simp
  then show ?thesis using False by (auto simp: bounds_check_prefix)
qed

lemma bounds_check_overflow:
  assumes "INT32_MAX < sint stride * sint height \<or> sint stride * sint height < - INT32_MAX - 1"
  shows "bounds_check offset width height stride size_p = Inr True"
proof (cases "sint offset < 0 \<or> sint width \<le> 0 \<or> sint height \<le> 0 \<or> sint stride < sint width")
  case True
  then show ?thesis by (auto simp: bounds_check_prefix)
next
  case False
  then have st: "0 < sint stride" and h: "0 < sint height" by auto
  then have "0 < sint stride * sint height" by simp
  with assms have "INT32_MAX < sint stride * sint height" by (simp add: INT32_MAX_def)
  moreover have "sint stride * sint height \<le> sint stride * (sint height + 1)"
    using st by (simp add: algebra_simps)
  ultimately show ?thesis by (simp add: bounds_check_prefix)
qed

lemma unref_no_trap: "shm_pool_unref pool s \<noteq> Inl DivisionByZero"
  by (simp add: shm_pool_unref_def Let_def split: option.splits)

text \<open>
  Claim C10: the division \<open>INT32_MAX / stride\<close> of the bounds check is never a division
  by zero. For every input the check, and with it the handler, returns without the trap;
  whenever the four disjuncts before the division are false, \<open>width > 0\<close> and
  \<open>stride \<ge> width\<close> hold, hence \<open>stride \<ge> 1\<close>.
\<close>

theorem division_never_by_zero:
  "bounds_check offset width height stride size_p \<noteq> Inl DivisionByZero \<and>
   shm_pool_create_buffer malloc_result create_result client resource id' offset width height
     stride format s \<noteq> Inl DivisionByZero \<and>
   (\<not> offset <s 0 \<and> \<not> width \<le>s 0 \<and> \<not> height \<le>s 0 \<and> \<not> stride <s width \<longrightarrow>
      0 < sint width \<and> sint width \<le> sint stride \<and> 1 \<le> sint stride)"
proof (intro conjI impI)
  show b: "bounds_check offset width height stride size_p \<noteq> Inl DivisionByZero" for size_p
    by (auto simp: bounds_check_def word_sless_alt word_sle_eq)
  show "shm_pool_create_buffer malloc_result create_result client resource id' offset width
          height stride format s \<noteq> Inl DivisionByZero"
    using b unref_no_trap
    by (auto simp: shm_pool_create_buffer_def Let_def split: option.splits sum.splits bool.splits)
  assume "\<not> offset <s 0 \<and> \<not> width \<le>s 0 \<and> \<not> height \<le>s 0 \<and> \<not> stride <s width"
  then show "0 < sint width" "sint width \<le> sint stride" "1 \<le> sint stride"
    by (auto simp: word_sless_alt word_sle_eq)
qed

theorem division_never_by_zero_witness:
  "bounds_check 0 1 8 1 4096 \<noteq> Inl DivisionByZero \<and>
   shm_pool_create_buffer 8192 32 1 16 2 0 1 8 1 WL_SHM_FORMAT_ARGB8888 example_state
     \<noteq> Inl DivisionByZero \<and>
   (\<not> (0::int32) <s 0 \<and> \<not> (1::int32) \<le>s 0 \<and> \<not> (8::int32) \<le>s 0 \<and> \<not> (1::int32) <s 1) \<and>
      0 < sint (1::int32) \<and> sint (1::int32) \<le> sint (1::int32) \<and> 1 \<le> sint (1::int32)"
  using division_never_by_zero [of 0 1 8 1 4096 8192 32 1 16 2 WL_SHM_FORMAT_ARGB8888
      example_state]
  by (simp add: word_sless_alt word_sle_eq)

text \<open>
  Claim C1: when the product of \<open>stride\<close> and \<open>height\<close> does not fit signed 32-bit
  arithmetic, the bounds check holds (the request is rejected) whatever the other values
  are, and the handler, reached with a whitelisted format, posts
  \<open>WL_SHM_ERROR_INVALID_STRIDE\<close> and changes nothing. The instance below is
  \<open>stride = 2 ^ 30\<close>, \<open>height = 8\<close>, whose 32-bit product wraps to 0.
\<close>

theorem overflowing_footprint_rejected:
  assumes "resources s resource = Some r"
    and "pools s (resource_data r) = Some pl"
    and "format = WL_SHM_FORMAT_ARGB8888 \<or> format = WL_SHM_FORMAT_XRGB8888"
    and "INT32_MAX < sint stride * sint height \<or> sint stride * sint height < - INT32_MAX - 1"
  shows "bounds_check offset width height stride (pool_size pl) = Inr True \<and>
     shm_pool_create_buffer malloc_result create_result client resource id' offset width height
       stride format s = Inr ([PostError resource WL_SHM_ERROR_INVALID_STRIDE], s)"
proof -
  have b: "bounds_check offset width height stride (pool_size pl) = Inr True"
    by (rule bounds_check_overflow[OF assms(4)])
  show ?thesis using assms(1,2,3) b
    by (auto simp: shm_pool_create_buffer_def)
qed

theorem overflowing_footprint_rejected_witness:
  "INT32_MAX < sint (2 ^ 30 :: int32) * sint (8 :: int32) \<and>
   sint ((2 ^ 30 :: int32) * 8) = 0 \<and>
   bounds_check 0 1 8 (2 ^ 30) 4096 = Inr True \<and>
   shm_pool_create_buffer 8192 32 1 16 2 0 1 8 (2 ^ 30) WL_SHM_FORMAT_ARGB8888 example_state
     = Inr ([PostError 16 WL_SHM_ERROR_INVALID_STRIDE], example_state)"
  using overflowing_footprint_rejected [where s = example_state and resource = 16
      and r = example_pool_handle and pl = example_pool and format = WL_SHM_FORMAT_ARGB8888
      and stride = "2 ^ 30" and height = 8 and offset = 0 and width = 1
      and malloc_result = 8192 and create_result = 32 and client = 1 and id' = 2]
  by (simp add: example_state_def example_pool_def example_pool_handle_def INT32_MAX_def)

section \<open>The bounds check: which requests pass\<close>

lemma bounds_check_cases:
  "bounds_check offset width height stride size_p = Inr True \<or>
   bounds_check offset width height stride size_p = Inr False"
  by (simp add: bounds_check_prefix)

lemma rejected_request:
  assumes "resources s resource = Some r"
    and "pools s (resource_data r) = Some pl"
    and "format = WL_SHM_FORMAT_ARGB8888 \<or> format = WL_SHM_FORMAT_XRGB8888"
    and "bounds_check offset width height stride (pool_size pl) = Inr True"
  shows "shm_pool_create_buffer malloc_result create_result client resource id' offset width
           height stride format s = Inr ([PostError resource WL_SHM_ERROR_INVALID_STRIDE], s)"
  using assms by (auto simp: shm_pool_create_buffer_def)

lemma accepted_request:
  assumes "resources s resource = Some r"
    and "pools s (resource_data r) = Some pl"
    and "format = WL_SHM_FORMAT_ARGB8888 \<or> format = WL_SHM_FORMAT_XRGB8888"
    and "bounds_check offset width height stride (pool_size pl) = Inr False"
    and "malloc_result \<noteq> NULL" and "create_result \<noteq> NULL"
  shows "shm_pool_create_buffer malloc_result create_result client resource id' offset width
           height stride format s =
         Inr ([Malloc sizeof_wl_shm_buffer],
              s\<lparr>pools := (pools s)(resource_data r \<mapsto>
                     pl\<lparr>pool_refcount := pool_refcount pl + 1\<rparr>),
                buffers := (buffers s)(malloc_result \<mapsto>
                     \<lparr>buffer_resource = create_result, buffer_width = width,
                      buffer_height = height, buffer_stride = stride,
                      buffer_format = format, buffer_offset = offset,
                      buffer_pool = resource_data r\<rparr>),
                resources := (resources s)(create_result \<mapsto>
                     \<lparr>resource_interface = wl_buffer_interface,
                      resource_implementation = shm_buffer_interface,
                      resource_data = malloc_result,
                      resource_destroy = destroy_buffer_callback\<rparr>)\<rparr>)"
  using assms by (auto simp: shm_pool_create_buffer_def Let_def)

text \<open>
  Claim C3, as the code has it. The claim asks for \<open>stride \<ge> 4 * width\<close>; the check
  compares \<open>stride\<close> with \<open>width\<close> itself. On a pool whose size is not negative and with a
  whitelisted format: a request with \<open>offset \<ge> 0\<close>, \<open>width > 0\<close>, \<open>height > 0\<close>,
  \<open>stride \<ge> width\<close>, \<open>stride * (height + 1) \<le> INT32_MAX\<close> and
  \<open>offset + stride * height \<le> pool size\<close> passes the check and is not answered with the
  invalid-stride error; a request with \<open>offset < 0\<close>, \<open>width \<le> 0\<close>, \<open>height \<le> 0\<close>,
  \<open>stride < width\<close>, \<open>stride * height > INT32_MAX\<close> or
  \<open>offset + stride * height > pool size\<close> fails the check and is answered with
  \<open>WL_SHM_ERROR_INVALID_STRIDE\<close>, nothing being created. All products and sums are those
  of the integers, not of 32-bit arithmetic.
\<close>

theorem pool_buffer_bounds:
  assumes "resources s resource = Some r"
    and "pools s (resource_data r) = Some pl"
    and "format = WL_SHM_FORMAT_ARGB8888 \<or> format = WL_SHM_FORMAT_XRGB8888"
    and "0 \<le> sint (pool_size pl)"
  shows "(0 \<le> sint offset \<and> 0 < sint width \<and> 0 < sint height \<and> sint width \<le> sint stride \<and>
          sint stride * (sint height + 1) \<le> INT32_MAX \<and>
          sint offset + sint stride * sint height \<le> sint (pool_size pl)
            \<longrightarrow> bounds_check offset width height stride (pool_size pl) = Inr False \<and>
                shm_pool_create_buffer malloc_result create_result client resource id' offset
                  width height stride format s
                  \<noteq> Inr ([PostError resource WL_SHM_ERROR_INVALID_STRIDE], s)) \<and>
         (sint offset < 0 \<or> sint width \<le> 0 \<or> sint height \<le> 0 \<or> sint stride < sint width \<or>
          INT32_MAX < sint stride * sint height \<or>
          sint (pool_size pl) < sint offset + sint stride * sint height
            \<longrightarrow> bounds_check offset width height stride (pool_size pl) = Inr True \<and>
                shm_pool_create_buffer malloc_result create_result client resource id' offset
                  width height stride format s
                  = Inr ([PostError resource WL_SHM_ERROR_INVALID_STRIDE], s))"
proof (intro conjI impI)
  assume "0 \<le> sint offset \<and> 0 < sint width \<and> 0 < sint height \<and> sint width \<le> sint stride \<and>
          sint stride * (sint height + 1) \<le> INT32_MAX \<and>
          sint offset + sint stride * sint height \<le> sint (pool_size pl)"
  then show acc: "bounds_check offset width height stride (pool_size pl) = Inr False"
    by (simp add: bounds_check_accepts_iff[OF assms(4)])
  show "shm_pool_create_buffer malloc_result create_result client resource id' offset
          width height stride format s \<noteq> Inr ([PostError resource WL_SHM_ERROR_INVALID_STRIDE], s)"
    using assms(1,2,3) acc
    by (auto simp: shm_pool_create_buffer_def Let_def shm_pool_unref_def split: sum.splits)
next
  assume v: "sint offset < 0 \<or> sint width \<le> 0 \<or> sint height \<le> 0 \<or> sint stride < sint width \<or>
          INT32_MAX < sint stride * sint height \<or>
          sint (pool_size pl) < sint offset + sint stride * sint height"
  have "bounds_check offset width height stride (pool_size pl) \<noteq> Inr False"
  proof
    assume "bounds_check offset width height stride (pool_size pl) = Inr False"
    then have a: "0 \<le> sint offset" "0 < sint width" "0 < sint height" "sint width \<le> sint stride"
      "sint stride * (sint height + 1) \<le> INT32_MAX"
      "sint offset + sint stride * sint height \<le> sint (pool_size pl)"
      by (simp_all add: bounds_check_accepts_iff[OF assms(4)])
    have "sint stride * sint height \<le> sint stride * (sint height + 1)"
      using a(2,4) by (simp add: algebra_simps)
    then have "sint stride * sint height \<le> INT32_MAX" using a(5) by simp
    with v a show False by auto
  qed
  then show rej: "bounds_check offset width height stride (pool_size pl) = Inr True"
    using bounds_check_cases[of offset width height stride "pool_size pl"] by simp
  show "shm_pool_create_buffer malloc_result create_result client resource id' offset
          width height stride format s = Inr ([PostError resource WL_SHM_ERROR_INVALID_STRIDE], s)"
    by (rule rejected_request[OF assms(1,2,3) rej])
qed

theorem pool_buffer_bounds_witness:
  "bounds_check 0 32 32 128 4096 = Inr False \<and>
   shm_pool_create_buffer 8192 32 1 16 2 0 32 32 128 WL_SHM_FORMAT_ARGB8888 example_state
     \<noteq> Inr ([PostError 16 WL_SHM_ERROR_INVALID_STRIDE], example_state) \<and>
   bounds_check 0 32 33 128 4096 = Inr True \<and>
   shm_pool_create_buffer 8192 32 1 16 2 0 32 33 128 WL_SHM_FORMAT_ARGB8888 example_state
     = Inr ([PostError 16 WL_SHM_ERROR_INVALID_STRIDE], example_state) \<and>
   bounds_check 0 32 1 31 4096 = Inr True \<and>
   shm_pool_create_buffer 8192 32 1 16 2 0 32 1 31 WL_SHM_FORMAT_ARGB8888 example_state
     = Inr ([PostError 16 WL_SHM_ERROR_INVALID_STRIDE], example_state)"
  using pool_buffer_bounds [where s = example_state and resource = 16
      and r = example_pool_handle and pl = example_pool and format = WL_SHM_FORMAT_ARGB8888
      and offset = 0 and width = 32 and height = 32 and stride = 128
      and malloc_result = 8192 and create_result = 32 and client = 1 and id' = 2]
    pool_buffer_bounds [where s = example_state and resource = 16
      and r = example_pool_handle and pl = example_pool and format = WL_SHM_FORMAT_ARGB8888
      and offset = 0 and width = 32 and height = 33 and stride = 128
      and malloc_result = 8192 and create_result = 32 and client = 1 and id' = 2]
    pool_buffer_bounds [where s = example_state and resource = 16
      and r = example_pool_handle and pl = example_pool and format = WL_SHM_FORMAT_ARGB8888
      and offset = 0 and width = 32 and height = 1 and stride = 31
      and malloc_result = 8192 and create_result = 32 and client = 1 and id' = 2]
  by (simp add: example_state_def example_pool_def example_pool_handle_def INT32_MAX_def)

text \<open>
  The claim C3 as stated fails: with the format ARGB8888 (4 bytes per pixel), \<open>width = 32\<close>
  and \<open>stride = 32\<close>, a stride below the 128 bytes of a row, the request passes the check
  and the buffer is created.
\<close>

theorem stride_below_row_bytes_accepted:
  "sint (32 :: int32) < 4 * sint (32 :: int32) \<and>
   bounds_check 0 32 1 32 4096 = Inr False \<and>
   shm_pool_create_buffer 8192 32 1 16 2 0 32 1 32 WL_SHM_FORMAT_ARGB8888 example_state =
     Inr ([Malloc sizeof_wl_shm_buffer],
          \<lparr>pools = [4096 \<mapsto> example_pool\<lparr>pool_refcount := 2\<rparr>],
           buffers = [8192 \<mapsto> \<lparr>buffer_resource = 32, buffer_width = 32, buffer_height = 1,
                                 buffer_stride = 32, buffer_format = WL_SHM_FORMAT_ARGB8888,
                                 buffer_offset = 0, buffer_pool = 4096\<rparr>],
           resources = [16 \<mapsto> example_pool_handle,
                        32 \<mapsto> \<lparr>resource_interface = wl_buffer_interface,
                                resource_implementation = shm_buffer_interface,
                                resource_data = 8192,
                                resource_destroy = destroy_buffer_callback\<rparr>]\<rparr>)"
  by (simp add: shm_pool_create_buffer_def bounds_check_def example_state_def example_pool_def
      example_pool_handle_def INT32_MAX_def signed_divide_int_def word_sless_alt word_sle_eq
      WL_SHM_FORMAT_ARGB8888_def WL_SHM_FORMAT_XRGB8888_def NULL_def)

section \<open>Creating a pool: the descriptor\<close>

text \<open>
  Claim C4 asks that \<open>shm_create_pool\<close> close the descriptor on every path. The code at
  the failing inputs: with a size of 0, and with a failing \<open>mmap\<close>, the handler jumps to
  \<open>err_free\<close>, which lies after \<open>err_close\<close>, and returns without a \<open>close\<close> of the
  descriptor 5.
\<close>

theorem descriptor_left_open_on_error_paths:
  "shm_create_pool 4096 65536 16 1 8 2 5 0 s =
     ([Malloc sizeof_wl_shm_pool, PostError 8 WL_SHM_ERROR_INVALID_STRIDE, Free 4096], s) \<and>
   Close 5 \<notin> set (fst (shm_create_pool 4096 65536 16 1 8 2 5 0 s)) \<and>
   shm_create_pool 4096 MAP_FAILED 16 1 8 2 5 4096 s =
     ([Malloc sizeof_wl_shm_pool, Mmap 4096 5, PostError 8 WL_SHM_ERROR_INVALID_FD, Free 4096], s) \<and>
   Close 5 \<notin> set (fst (shm_create_pool 4096 MAP_FAILED 16 1 8 2 5 4096 s))"
  by (simp add: shm_create_pool_def err_free_def NULL_def word_sle_eq)

text \<open>
  On the three other paths (no memory for the pool, success, no memory for the handle) the
  descriptor is closed.
\<close>

lemma descriptor_closed_on_other_paths:
  "malloc_result = NULL \<or> (0 < sint size_new \<and> mmap_result \<noteq> MAP_FAILED) \<Longrightarrow>
   Close fd \<in> set (fst (shm_create_pool malloc_result mmap_result create_result client resource
                           id' fd size_new s))"
  by (auto simp: shm_create_pool_def err_close_def err_free_def Let_def word_sle_eq)

section \<open>Resizing a pool\<close>

text \<open>
  Claim C5: when \<open>mremap\<close> fails, \<open>shm_pool_resize\<close> posts \<open>WL_SHM_ERROR_INVALID_FD\<close>,
  a code other than the one of the geometry errors and the one of the format error, and
  returns the state it was called in: the pool keeps its base address and its size, and
  every later operation, being a function of the state, behaves as without the request.
\<close>

theorem failed_resize_keeps_pool:
  assumes "resources s resource = Some r"
    and "pools s (resource_data r) = Some pl"
  shows "shm_pool_resize MAP_FAILED client resource size_new s =
           Inr ([Mremap (pool_data pl) (pool_size pl) size_new,
                 PostError resource WL_SHM_ERROR_INVALID_FD], s) \<and>
         pools s (resource_data r) = Some pl \<and>
         WL_SHM_ERROR_INVALID_FD \<noteq> WL_SHM_ERROR_INVALID_STRIDE \<and>
         WL_SHM_ERROR_INVALID_FD \<noteq> WL_SHM_ERROR_INVALID_FORMAT"
  using assms
  by (simp add: shm_pool_resize_def WL_SHM_ERROR_INVALID_FD_def WL_SHM_ERROR_INVALID_STRIDE_def
      WL_SHM_ERROR_INVALID_FORMAT_def)

theorem failed_resize_keeps_pool_witness:
  "shm_pool_resize MAP_FAILED 1 16 8192 example_state =
     Inr ([Mremap 65536 4096 8192, PostError 16 WL_SHM_ERROR_INVALID_FD], example_state) \<and>
   pools example_state 4096 = Some example_pool \<and>
   pool_data example_pool = 65536 \<and> pool_size example_pool = 4096"
  using failed_resize_keeps_pool [where s = example_state and resource = 16
      and r = example_pool_handle and pl = example_pool and client = 1 and size_new = 8192]
  by (simp add: example_state_def example_pool_def example_pool_handle_def)

lemma resized_pool:
  assumes "resources s resource = Some r"
    and "pools s (resource_data r) = Some pl"
    and "mremap_result \<noteq> MAP_FAILED"
  shows "shm_pool_resize mremap_result client resource size_new s =
           Inr ([Mremap (pool_data pl) (pool_size pl) size_new],
                s\<lparr>pools := (pools s)(resource_data r \<mapsto>
                       pl\<lparr>pool_data := mremap_result, pool_size := size_new\<rparr>)\<rparr>)"
  using assms by (simp add: shm_pool_resize_def)

text \<open>
  Claim C6: a buffer created at \<open>offset\<close> in a pool keeps the offset only. Before the
  resize its data address is the pool's base plus the offset; after a successful resize it
  is the new base plus the same offset, the buffer object being unchanged. The footprint
  fitted the old size, so it fits every new size that is not smaller.
\<close>

theorem buffer_data_follows_resize:
  assumes "resources s resource = Some r"
    and "pools s (resource_data r) = Some pl"
    and "resource_data r \<noteq> NULL"
    and "0 \<le> sint (pool_size pl)"
    and "format = WL_SHM_FORMAT_ARGB8888 \<or> format = WL_SHM_FORMAT_XRGB8888"
    and "bounds_check offset width height stride (pool_size pl) = Inr False"
    and "malloc_result \<noteq> NULL" and "create_result \<noteq> NULL"
    and "create_result \<noteq> resource"
    and "mremap_result \<noteq> MAP_FAILED"
  shows "\<exists>ev1 s1 ev2 s2.
           shm_pool_create_buffer malloc_result create_result client resource id' offset width
             height stride format s = Inr (ev1, s1) \<and>
           wl_shm_buffer_get_data malloc_result s1 = Inr (pool_data pl + scast offset) \<and>
           shm_pool_resize mremap_result client resource size_new s1 = Inr (ev2, s2) \<and>
           wl_shm_buffer_get_data malloc_result s2 = Inr (mremap_result + scast offset) \<and>
           buffers s2 malloc_result = buffers s1 malloc_result \<and>
           0 \<le> sint offset \<and>
           sint offset + sint stride * sint height \<le> sint (pool_size pl) \<and>
           (sint (pool_size pl) \<le> sint size_new \<longrightarrow>
              sint offset + sint stride * sint height \<le> sint size_new)"
proof -
  let ?p = "resource_data r"
  let ?pl1 = "pl\<lparr>pool_refcount := pool_refcount pl + 1\<rparr>"
  let ?b = "\<lparr>buffer_resource = create_result, buffer_width = width,
                      buffer_height = height, buffer_stride = stride,
                      buffer_format = format, buffer_offset = offset,
                      buffer_pool = ?p\<rparr>"
  let ?s1 = "s\<lparr>pools := (pools s)(?p \<mapsto> ?pl1),
                buffers := (buffers s)(malloc_result \<mapsto> ?b),
                resources := (resources s)(create_result \<mapsto>
                     \<lparr>resource_interface = wl_buffer_interface,
                      resource_implementation = shm_buffer_interface,
                      resource_data = malloc_result,
                      resource_destroy = destroy_buffer_callback\<rparr>)\<rparr>"
  let ?s2 = "?s1\<lparr>pools := (pools ?s1)(?p \<mapsto>
                       ?pl1\<lparr>pool_data := mremap_result, pool_size := size_new\<rparr>)\<rparr>"
  have c: "shm_pool_create_buffer malloc_result create_result client resource id' offset width
             height stride format s = Inr ([Malloc sizeof_wl_shm_buffer], ?s1)"
    by (rule accepted_request[OF assms(1,2,5,6,7,8)])
  have r1: "resources ?s1 resource = Some r" using assms(1,9) by simp
  have p1: "pools ?s1 ?p = Some ?pl1" by simp
  have z: "shm_pool_resize mremap_result client resource size_new ?s1 =
             Inr ([Mremap (pool_data ?pl1) (pool_size ?pl1) size_new], ?s2)"
    by (rule resized_pool[OF r1 p1 assms(10)])
  have g1: "wl_shm_buffer_get_data malloc_result ?s1 = Inr (pool_data pl + scast offset)"
    using assms(3) by (simp add: wl_shm_buffer_get_data_def)
  have g2: "wl_shm_buffer_get_data malloc_result ?s2 = Inr (mremap_result + scast offset)"
    using assms(3) by (simp add: wl_shm_buffer_get_data_def)
  have fit: "0 \<le> sint offset" "sint offset + sint stride * sint height \<le> sint (pool_size pl)"
    using assms(6) by (simp_all add: bounds_check_accepts_iff[OF assms(4)])
  show ?thesis
    apply (rule exI[of _ "[Malloc sizeof_wl_shm_buffer]"])
    apply (rule exI[of _ ?s1])
    apply (rule exI[of _ "[Mremap (pool_data ?pl1) (pool_size ?pl1) size_new]"])
    apply (rule exI[of _ ?s2])
    using c z g1 g2 fit by simp
qed

theorem buffer_data_follows_resize_witness:
  "\<exists>ev1 s1 ev2 s2.
     shm_pool_create_buffer 8192 32 1 16 2 2048 32 16 128 WL_SHM_FORMAT_ARGB8888 example_state
       = Inr (ev1, s1) \<and>
     wl_shm_buffer_get_data 8192 s1 = Inr (65536 + 2048) \<and>
     shm_pool_resize 131072 1 16 8192 s1 = Inr (ev2, s2) \<and>
     wl_shm_buffer_get_data 8192 s2 = Inr (131072 + 2048) \<and>
     sint (2048 :: int32) + sint (128 :: int32) * sint (16 :: int32) \<le> sint (8192 :: int32)"
  using buffer_data_follows_resize [where s = example_state and resource = 16
      and r = example_pool_handle and pl = example_pool and format = WL_SHM_FORMAT_ARGB8888
      and offset = 2048 and width = 32 and height = 16 and stride = 128
      and malloc_result = 8192 and create_result = 32 and mremap_result = 131072
      and client = 1 and id' = 2 and size_new = 8192]
  by (simp add: example_state_def example_pool_def example_pool_handle_def NULL_def
      MAP_FAILED_def bounds_check_def INT32_MAX_def signed_divide_int_def word_sless_alt
      word_sle_eq) blast

section \<open>Buffers without a pool\<close>

lemma scast_footprint:
  assumes "0 \<le> sint (stride::int32) * sint (height::int32)"
    and "sint stride * sint height \<le> INT32_MAX"
  shows "uint (scast (stride * height) :: size_t) = sint stride * sint height"
proof -
  define P where "P = sint stride * sint height"
  have P: "0 \<le> P" "P \<le> 2147483647" using assms by (simp_all add: P_def INT32_MAX_def)
  have "sint (stride * height) = signed_take_bit 31 P"
    by (simp add: sint_word_mult P_def)
  also have "\<dots> = P" using P by (simp add: signed_take_bit_int_eq_self)
  finally have s: "sint (stride * height) = P" .
  have "uint (scast (stride * height) :: size_t) = take_bit LENGTH(64) (sint (stride * height))"
    by (simp only: scast_eq uint_word_of_int_eq)
  then have "uint (scast (stride * height) :: size_t) = take_bit 64 (sint (stride * height))"
    by simp
  also have "\<dots> = P" using P by (simp add: s take_bit_int_eq_self)
  finally show ?thesis by (simp add: P_def)
qed

text \<open>
  Claim C7, as the code has it. \<open>wl_shm_buffer_create\<close> checks the format and nothing
  else: for a format outside the whitelist it returns \<open>NULL\<close> without a call and without a
  change; for a whitelisted format the outcome depends only on whether the allocation and
  the handle are obtained, never on the sign of \<open>width\<close>, \<open>height\<close> or \<open>stride\<close>. The one
  allocation asks for the header plus the 32-bit product \<open>stride * height\<close>, which is
  exactly \<open>stride * height\<close> bytes of private storage when that product lies between 0 and
  \<open>INT32_MAX\<close>.
\<close>

theorem standalone_buffer_checks_format_only:
  "(format \<noteq> WL_SHM_FORMAT_ARGB8888 \<and> format \<noteq> WL_SHM_FORMAT_XRGB8888 \<longrightarrow>
      wl_shm_buffer_create malloc_result create_result client id' width height stride format s =
        (NULL, [], s)) \<and>
   (format = WL_SHM_FORMAT_ARGB8888 \<or> format = WL_SHM_FORMAT_XRGB8888 \<longrightarrow>
      (malloc_result = NULL \<longrightarrow>
         wl_shm_buffer_create malloc_result create_result client id' width height stride format s =
           (NULL, [Malloc (sizeof_wl_shm_buffer + scast (stride * height))], s)) \<and>
      (malloc_result \<noteq> NULL \<and> create_result = NULL \<longrightarrow>
         wl_shm_buffer_create malloc_result create_result client id' width height stride format s =
           (NULL, [Malloc (sizeof_wl_shm_buffer + scast (stride * height)), Free malloc_result], s)) \<and>
      (malloc_result \<noteq> NULL \<and> create_result \<noteq> NULL \<longrightarrow>
         wl_shm_buffer_create malloc_result create_result client id' width height stride format s =
           (malloc_result, [Malloc (sizeof_wl_shm_buffer + scast (stride * height))],
            s\<lparr>buffers := (buffers s)(malloc_result \<mapsto>
                  \<lparr>buffer_resource = create_result, buffer_width = width,
                   buffer_height = height, buffer_stride = stride, buffer_format = format,
                   buffer_offset = 0, buffer_pool = NULL\<rparr>),
              resources := (resources s)(create_result \<mapsto>
                  \<lparr>resource_interface = wl_buffer_interface,
                   resource_implementation = shm_buffer_interface,
                   resource_data = malloc_result,
                   resource_destroy = destroy_buffer_callback\<rparr>)\<rparr>))) \<and>
   (0 \<le> sint stride * sint height \<and> sint stride * sint height \<le> INT32_MAX \<longrightarrow>
      uint (scast (stride * height) :: size_t) = sint stride * sint height)"
  by (simp add: wl_shm_buffer_create_def Let_def scast_footprint)

theorem standalone_buffer_checks_format_only_witness:
  "wl_shm_buffer_create 8192 32 1 2 32 32 128 7 example_state = (NULL, [], example_state) \<and>
   wl_shm_buffer_create 8192 32 1 2 32 32 128 WL_SHM_FORMAT_XRGB8888 example_state =
     (8192, [Malloc (sizeof_wl_shm_buffer + 4096)],
      example_state\<lparr>buffers := [8192 \<mapsto>
                  \<lparr>buffer_resource = 32, buffer_width = 32,
                   buffer_height = 32, buffer_stride = 128, buffer_format = WL_SHM_FORMAT_XRGB8888,
                   buffer_offset = 0, buffer_pool = NULL\<rparr>],
              resources := [16 \<mapsto> example_pool_handle, 32 \<mapsto>
                  \<lparr>resource_interface = wl_buffer_interface,
                   resource_implementation = shm_buffer_interface,
                   resource_data = 8192,
                   resource_destroy = destroy_buffer_callback\<rparr>]\<rparr>) \<and>
   uint (scast ((128 :: int32) * 32) :: size_t) = 4096"
  using standalone_buffer_checks_format_only [where format = 7 and malloc_result = 8192
      and create_result = 32 and client = 1 and id' = 2 and width = 32 and height = 32
      and stride = 128 and s = example_state]
    standalone_buffer_checks_format_only [where format = WL_SHM_FORMAT_XRGB8888
      and malloc_result = 8192
      and create_result = 32 and client = 1 and id' = 2 and width = 32 and height = 32
      and stride = 128 and s = example_state]
  by (simp add: example_state_def WL_SHM_FORMAT_ARGB8888_def WL_SHM_FORMAT_XRGB8888_def
      NULL_def INT32_MAX_def)

text \<open>
  The claim C7 as stated fails: with \<open>width\<close>, \<open>height\<close> and \<open>stride\<close> all 0 and a
  whitelisted format, the call returns the buffer, not \<open>NULL\<close>, and the buffer and its
  handle exist afterwards.
\<close>

theorem standalone_buffer_without_positivity_check:
  "wl_shm_buffer_create 8192 32 1 2 0 0 0 WL_SHM_FORMAT_ARGB8888 example_state =
     (8192, [Malloc sizeof_wl_shm_buffer],
      \<lparr>pools = [4096 \<mapsto> example_pool],
       buffers = [8192 \<mapsto> \<lparr>buffer_resource = 32, buffer_width = 0, buffer_height = 0,
                             buffer_stride = 0, buffer_format = WL_SHM_FORMAT_ARGB8888,
                             buffer_offset = 0, buffer_pool = NULL\<rparr>],
       resources = [16 \<mapsto> example_pool_handle,
                    32 \<mapsto> \<lparr>resource_interface = wl_buffer_interface,
                            resource_implementation = shm_buffer_interface,
                            resource_data = 8192,
                            resource_destroy = destroy_buffer_callback\<rparr>]\<rparr>) \<and>
   (8192 :: addr) \<noteq> NULL"
  by (simp add: wl_shm_buffer_create_def example_state_def NULL_def
      WL_SHM_FORMAT_ARGB8888_def WL_SHM_FORMAT_XRGB8888_def)

section \<open>Unwinding when no handle can be created\<close>

lemma unref_after_ref:
  assumes "pools s pool = Some pl" and "pool_refcount pl \<noteq> 0"
  shows "shm_pool_unref pool
           (s\<lparr>pools := (pools s)(pool \<mapsto> pl\<lparr>pool_refcount := pool_refcount pl + 1\<rparr>)\<rparr>) =
         Inr ([], s)"
proof -
  have "(pools s)(pool \<mapsto> pl) = pools s" using assms(1) by (rule map_upd_triv)
  then show ?thesis using assms(2) by (simp add: shm_pool_unref_def)
qed

text \<open>
  Claim C8: when \<open>wl_resource_create\<close> returns \<open>NULL\<close> after the object has been set up.
  In \<open>shm_pool_create_buffer\<close>, on a live pool (reference count not 0) and for a request
  that passed the checks and got its storage, the out-of-memory signal is sent, the
  reference just taken is released without unmapping anything, the buffer storage is freed,
  and the state is the one before the call: the same reference count, no buffer, no handle.
  In \<open>shm_create_pool\<close>, in any state \<open>s'\<close> whatever (also one without any pool), once
  the pool object is allocated, the size is positive and the region is mapped, the
  descriptor is closed, the out-of-memory signal is sent, the mapped region is unmapped, the
  pool object is freed and the state is the one before the call.
\<close>

theorem failed_handle_creation_unwinds:
  "(resources s resource = Some r \<and> pools s (resource_data r) = Some pl \<and>
    pool_refcount pl \<noteq> 0 \<and>
    (format = WL_SHM_FORMAT_ARGB8888 \<or> format = WL_SHM_FORMAT_XRGB8888) \<and>
    bounds_check offset width height stride (pool_size pl) = Inr False \<and>
    malloc_result \<noteq> NULL \<longrightarrow>
      shm_pool_create_buffer malloc_result NULL client resource id' offset width height
        stride format s =
        Inr ([Malloc sizeof_wl_shm_buffer, PostNoMemory client, Free malloc_result], s)) \<and>
   (malloc_result' \<noteq> NULL \<and> \<not> size_new \<le>s 0 \<and> mmap_result \<noteq> MAP_FAILED \<longrightarrow>
      shm_create_pool malloc_result' mmap_result NULL client' resource' id'' fd size_new s' =
        ([Malloc sizeof_wl_shm_pool, Mmap size_new fd, Close fd, PostNoMemory client',
          Munmap mmap_result size_new, Free malloc_result'], s'))"
proof (intro conjI impI)
  assume a: "resources s resource = Some r \<and> pools s (resource_data r) = Some pl \<and>
    pool_refcount pl \<noteq> 0 \<and>
    (format = WL_SHM_FORMAT_ARGB8888 \<or> format = WL_SHM_FORMAT_XRGB8888) \<and>
    bounds_check offset width height stride (pool_size pl) = Inr False \<and>
    malloc_result \<noteq> NULL"
  then have p: "pools s (resource_data r) = Some pl" and c: "pool_refcount pl \<noteq> 0" by simp_all
  show "shm_pool_create_buffer malloc_result NULL client resource id' offset width height
           stride format s =
           Inr ([Malloc sizeof_wl_shm_buffer, PostNoMemory client, Free malloc_result], s)"
    using a unref_after_ref[OF p c]
    by (auto simp: shm_pool_create_buffer_def Let_def)
next
  assume "malloc_result' \<noteq> NULL \<and> \<not> size_new \<le>s 0 \<and> mmap_result \<noteq> MAP_FAILED"
  then show "shm_create_pool malloc_result' mmap_result NULL client' resource' id'' fd size_new s' =
           ([Malloc sizeof_wl_shm_pool, Mmap size_new fd, Close fd, PostNoMemory client',
             Munmap mmap_result size_new, Free malloc_result'], s')"
    by (simp add: shm_create_pool_def Let_def)
qed

theorem failed_handle_creation_unwinds_witness:
  "shm_pool_create_buffer 8192 NULL 1 16 2 0 32 32 128 WL_SHM_FORMAT_XRGB8888 example_state =
     Inr ([Malloc sizeof_wl_shm_buffer, PostNoMemory 1, Free 8192], example_state) \<and>
   pools example_state 4096 = Some example_pool \<and> pool_refcount example_pool = 1 \<and>
   shm_create_pool 4096 65536 NULL 1 8 3 5 4096 empty_state =
     ([Malloc sizeof_wl_shm_pool, Mmap 4096 5, Close 5, PostNoMemory 1, Munmap 65536 4096,
       Free 4096], empty_state) \<and>
   pools empty_state 4096 = None \<and>
   shm_create_pool 8192 131072 NULL 1 8 3 5 4096 example_state =
     ([Malloc sizeof_wl_shm_pool, Mmap 4096 5, Close 5, PostNoMemory 1, Munmap 131072 4096,
       Free 8192], example_state)"
  using failed_handle_creation_unwinds [where s = example_state and resource = 16
      and r = example_pool_handle and pl = example_pool and format = WL_SHM_FORMAT_XRGB8888
      and offset = 0 and width = 32 and height = 32 and stride = 128 and malloc_result = 8192
      and client = 1 and id' = 2
      and malloc_result' = 4096 and size_new = 4096 and mmap_result = 65536 and client' = 1
      and resource' = 8 and id'' = 3 and fd = 5 and s' = empty_state]
    failed_handle_creation_unwinds [where s = example_state and resource = 16
      and r = example_pool_handle and pl = example_pool and format = WL_SHM_FORMAT_XRGB8888
      and offset = 0 and width = 32 and height = 32 and stride = 128 and malloc_result = 8192
      and client = 1 and id' = 2
      and malloc_result' = 8192 and size_new = 4096 and mmap_result = 131072 and client' = 1
      and resource' = 8 and id'' = 3 and fd = 5 and s' = example_state]
  by (simp add: example_state_def example_pool_def example_pool_handle_def empty_state_def
      NULL_def MAP_FAILED_def bounds_check_def INT32_MAX_def signed_divide_int_def
      word_sless_alt word_sle_eq)

section \<open>Recognising a buffer handle\<close>

text \<open>
  Claim C9: \<open>wl_shm_buffer_get\<close> returns \<open>NULL\<close> for the null handle; for any other live
  handle, whatever its interface and implementation, it returns the handle's user data when
  the instance check against the buffer interface and this file's implementation succeeds,
  and \<open>NULL\<close> when the check fails.
\<close>

theorem buffer_get_total:
  "wl_shm_buffer_get NULL s = Inr NULL \<and>
   (resource \<noteq> NULL \<and> resources s resource = Some r \<longrightarrow>
      wl_shm_buffer_get resource s =
        Inr (if wl_resource_instance_of r wl_buffer_interface shm_buffer_interface
             then resource_data r else NULL))"
  by (simp add: wl_shm_buffer_get_def)

theorem buffer_get_total_witness:
  "wl_shm_buffer_get NULL example_state_with_buffer = Inr NULL \<and>
   wl_shm_buffer_get 16 example_state_with_buffer = Inr NULL \<and>
   wl_shm_buffer_get 32 example_state_with_buffer = Inr 8192 \<and>
   resources example_state_with_buffer 16 = Some example_pool_handle \<and>
   resources example_state_with_buffer 32 = Some example_buffer_handle \<and>
   (16 :: addr) \<noteq> NULL \<and> (32 :: addr) \<noteq> NULL"
  using buffer_get_total [of example_state_with_buffer 16 example_pool_handle]
    buffer_get_total [of example_state_with_buffer 32 example_buffer_handle]
  by (simp add: example_state_with_buffer_def example_pool_handle_def example_buffer_handle_def
      NULL_def wl_resource_instance_of_def)

section \<open>The reference count of a pool\<close>

lemma unmaps_append: "unmaps (xs @ ys) = unmaps xs @ unmaps ys"
  by (induction xs rule: unmaps.induct) simp_all

lemma unref_not_last:
  assumes "pools s pool = Some pl" and "pool_refcount pl \<noteq> 1"
  shows "shm_pool_unref pool s =
           Inr ([], s\<lparr>pools := (pools s)(pool \<mapsto> pl\<lparr>pool_refcount := pool_refcount pl - 1\<rparr>)\<rparr>)"
  using assms by (simp add: shm_pool_unref_def)

lemma unref_last:
  assumes "pools s pool = Some pl" and "pool_refcount pl = 1"
  shows "shm_pool_unref pool s =
           Inr ([Munmap (pool_data pl) (pool_size pl), Free pool],
                s\<lparr>pools := (pools s)(pool := None)\<rparr>)"
  using assms by (simp add: shm_pool_unref_def)

lemma references_tail:
  assumes "references pool s (h # hs)"
    and "resources s' = (resources s)(h := None)"
    and "buffers s' = buffers s \<or>
         (\<exists>r. resources s h = Some r \<and> buffers s' = (buffers s)(resource_data r := None))"
  shows "references pool s' hs"
proof -
  from assms(1) have d: "distinct (map (handle_data s) (h # hs))"
    and hr: "\<forall>x \<in> set (h # hs). holds_reference pool s x"
    by (simp_all add: references_def)
  from d have hn: "h \<notin> set hs" by auto
  have same: "handle_data s' x = handle_data s x" if "x \<in> set hs" for x
    using that hn assms(2) by (auto simp: handle_data_def)
  have d': "distinct (map (handle_data s') hs)"
  proof -
    have eq: "map (handle_data s') hs = map (handle_data s) hs"
      using same by (simp add: map_eq_conv)
    from d have "distinct (map (handle_data s) hs)" by simp
    then show ?thesis by (simp only: eq)
  qed
  have "holds_reference pool s' x" if x: "x \<in> set hs" for x
  proof -
    from hr x have hx: "holds_reference pool s x" by simp
    have rx: "resources s' x = resources s x" using x hn assms(2) by auto
    from hx obtain rr where rr: "resources s x = Some rr"
      by (auto simp: holds_reference_def split: option.splits)
    have bx: "buffers s' (resource_data rr) = buffers s (resource_data rr)"
    proof -
      from assms(3) show ?thesis
      proof
        assume "buffers s' = buffers s" then show ?thesis by simp
      next
        assume "\<exists>r. resources s h = Some r \<and> buffers s' = (buffers s)(resource_data r := None)"
        then obtain r where r: "resources s h = Some r"
          and b: "buffers s' = (buffers s)(resource_data r := None)" by blast
        have "handle_data s h \<noteq> handle_data s x" using d x by auto
        then have "resource_data r \<noteq> resource_data rr" using r rr by (simp add: handle_data_def)
        then show ?thesis using b by simp
      qed
    qed
    show ?thesis using hx rx rr bx
      by (simp add: holds_reference_def split: destructor.splits)
  qed
  with d' show ?thesis by (simp add: references_def)
qed

lemma destroy_step_not_last:
  assumes "references pool s (h # hs)" and "pools s pool = Some pl" and "pool \<noteq> NULL"
    and "pool_refcount pl \<noteq> 1"
  shows "\<exists>ev s'. wl_resource_destroy h s = Inr (ev, s') \<and> unmaps ev = [] \<and>
           Free pool \<notin> set ev \<and>
           pools s' pool = Some (pl\<lparr>pool_refcount := pool_refcount pl - 1\<rparr>) \<and>
           references pool s' hs"
proof -
  from assms(1) have hh: "holds_reference pool s h" by (simp add: references_def)
  then obtain r where r: "resources s h = Some r"
    by (auto simp: holds_reference_def split: option.splits)
  let ?s1 = "s\<lparr>pools := (pools s)(pool \<mapsto> pl\<lparr>pool_refcount := pool_refcount pl - 1\<rparr>)\<rparr>"
  note u = unref_not_last[OF assms(2,4)]
  show ?thesis
  proof (cases "resource_destroy r")
    case destroy_pool_callback
    with hh r have dp: "resource_data r = pool" by (simp add: holds_reference_def)
    let ?s' = "?s1\<lparr>resources := (resources ?s1)(h := None)\<rparr>"
    have w: "wl_resource_destroy h s = Inr ([], ?s')"
      using r destroy_pool_callback dp u
      by (simp add: wl_resource_destroy_def destroy_pool_def)
    have "references pool ?s' hs"
      by (rule references_tail[OF assms(1)]) simp_all
    then show ?thesis using w by simp
  next
    case destroy_buffer_callback
    with hh r obtain b where b: "buffers s (resource_data r) = Some b" "buffer_pool b = pool"
      and ne: "resource_data r \<noteq> pool"
      by (auto simp: holds_reference_def split: option.splits)
    let ?s' = "?s1\<lparr>buffers := (buffers ?s1)(resource_data r := None),
                    resources := (resources ?s1)(h := None)\<rparr>"
    have w: "wl_resource_destroy h s = Inr ([Free (resource_data r)], ?s')"
      using r destroy_buffer_callback b u assms(3)
      by (simp add: wl_resource_destroy_def destroy_buffer_def Let_def)
    have "references pool ?s' hs"
      by (rule references_tail[OF assms(1)]) (simp_all add: r)
    then show ?thesis using w ne by simp
  next
    case no_destructor
    with hh r show ?thesis by (simp add: holds_reference_def)
  qed
qed

lemma destroy_step_last:
  assumes "references pool s (h # hs)" and "pools s pool = Some pl" and "pool \<noteq> NULL"
    and "pool_refcount pl = 1"
  shows "\<exists>ev s'. wl_resource_destroy h s = Inr (ev, s') \<and>
           unmaps ev = [(pool_data pl, pool_size pl)] \<and>
           count_list ev (Free pool) = 1 \<and>
           pools s' pool = None"
proof -
  from assms(1) have hh: "holds_reference pool s h" by (simp add: references_def)
  then obtain r where r: "resources s h = Some r"
    by (auto simp: holds_reference_def split: option.splits)
  note u = unref_last[OF assms(2,4)]
  show ?thesis
  proof (cases "resource_destroy r")
    case destroy_pool_callback
    with hh r have dp: "resource_data r = pool" by (simp add: holds_reference_def)
    show ?thesis
      using r destroy_pool_callback dp u
      by (simp add: wl_resource_destroy_def destroy_pool_def)
  next
    case destroy_buffer_callback
    with hh r obtain b where b: "buffers s (resource_data r) = Some b" "buffer_pool b = pool"
      and ne: "resource_data r \<noteq> pool"
      by (auto simp: holds_reference_def split: option.splits)
    show ?thesis
      using r destroy_buffer_callback b u assms(3) ne
      by (simp add: wl_resource_destroy_def destroy_buffer_def Let_def)
  next
    case no_destructor
    with hh r show ?thesis by (simp add: holds_reference_def)
  qed
qed

lemma unat_pred:
  fixes c :: int32
  assumes "unat c = Suc n"
  shows "unat (c - 1) = n"
proof -
  have "c \<noteq> 0" using assms by auto
  then have "unat (c - 1) = unat c - 1" by (simp add: unat_minus_one)
  then show ?thesis using assms by simp
qed

lemma destroy_run:
  assumes "references pool s hs" and "pools s pool = Some pl" and "pool \<noteq> NULL"
    and "unat (pool_refcount pl) = length hs" and "k \<le> length hs"
  shows "\<exists>ev s'. destroy_handles (take k hs) s = Inr (ev, s') \<and>
           (if k < length hs
            then unmaps ev = [] \<and> Free pool \<notin> set ev \<and>
                 (\<exists>pl'. pools s' pool = Some pl' \<and> unat (pool_refcount pl') = length hs - k)
            else hs \<noteq> [] \<longrightarrow>
                 unmaps ev = [(pool_data pl, pool_size pl)] \<and> count_list ev (Free pool) = 1 \<and>
                 pools s' pool = None)"
  using assms
proof (induction hs arbitrary: s pl k)
  case Nil
  then show ?case by simp
next
  case (Cons h hs)
  show ?case
  proof (cases k)
    case 0
    then show ?thesis using Cons.prems(2,4) by simp
  next
    case (Suc k')
    show ?thesis
    proof (cases "pool_refcount pl = 1")
      case True
      then have "length (h # hs) = 1" using Cons.prems(4) by simp
      then have e: "hs = []" by simp
      from destroy_step_last[OF Cons.prems(1,2,3) True]
      obtain ev s' where "wl_resource_destroy h s = Inr (ev, s')"
        "unmaps ev = [(pool_data pl, pool_size pl)]" "count_list ev (Free pool) = 1"
        "pools s' pool = None" by blast
      then show ?thesis using e Suc by simp
    next
      case False
      from destroy_step_not_last[OF Cons.prems(1,2,3) False]
      obtain ev s' where st: "wl_resource_destroy h s = Inr (ev, s')" "unmaps ev = []"
        "Free pool \<notin> set ev"
        "pools s' pool = Some (pl\<lparr>pool_refcount := pool_refcount pl - 1\<rparr>)"
        "references pool s' hs" by blast
      let ?pl' = "pl\<lparr>pool_refcount := pool_refcount pl - 1\<rparr>"
      have rc: "unat (pool_refcount ?pl') = length hs"
        using unat_pred[of "pool_refcount pl" "length hs"] Cons.prems(4) by simp
      have ne: "hs \<noteq> []"
      proof
        assume "hs = []"
        then have "unat (pool_refcount pl) = 1" using Cons.prems(4) by simp
        then have "pool_refcount pl = 1" by (metis unat_1 word_unat_eq_iff)
        with False show False by simp
      qed
      have k': "k' \<le> length hs" using Cons.prems(5) Suc by simp
      from Cons.IH[OF st(5) st(4) Cons.prems(3) rc k']
      obtain ev' s'' where run: "destroy_handles (take k' hs) s' = Inr (ev', s'')"
        and post: "if k' < length hs
            then unmaps ev' = [] \<and> Free pool \<notin> set ev' \<and>
                 (\<exists>pl'. pools s'' pool = Some pl' \<and> unat (pool_refcount pl') = length hs - k')
            else hs \<noteq> [] \<longrightarrow>
                 unmaps ev' = [(pool_data ?pl', pool_size ?pl')] \<and>
                 count_list ev' (Free pool) = 1 \<and> pools s'' pool = None"
        by blast
      have whole: "destroy_handles (take k (h # hs)) s = Inr (ev @ ev', s'')"
        using Suc st(1) run by simp
      show ?thesis
      proof (cases "k' < length hs")
        case True
        with post whole st(2,3) Suc show ?thesis by (auto simp: unmaps_append)
      next
        case False
        with post ne whole st(2,3) Suc show ?thesis by (auto simp: unmaps_append)
      qed
    qed
  qed
qed

lemma references_permute:
  assumes "references pool s hs" and "mset ds = mset hs"
  shows "references pool s ds"
proof -
  have "mset (map (handle_data s) ds) = mset (map (handle_data s) hs)"
    using assms(2) by simp
  then have "distinct (map (handle_data s) ds) = distinct (map (handle_data s) hs)"
    by (rule mset_eq_imp_distinct_iff)
  moreover have "set ds = set hs" using assms(2) by (rule mset_eq_setD)
  ultimately show ?thesis using assms(1) by (simp add: references_def)
qed

lemma create_step:
  assumes refs: "references pool s hs"
    and pr: "resource \<in> set hs" "resources s resource = Some r" "resource_data r = pool"
    and pl: "pools s pool = Some pl"
    and ok: "creation_succeeds (pool_size pl) q"
    and fresh: "request_handle q \<notin> set hs" "Some (request_buffer q) \<notin> set (map (handle_data s) hs)"
  shows "\<exists>s'. create_one client resource q s = Inr ([Malloc sizeof_wl_shm_buffer], s') \<and>
           pools s' pool = Some (pl\<lparr>pool_refcount := pool_refcount pl + 1\<rparr>) \<and>
           resources s' resource = Some r \<and>
           (\<forall>h \<in> set hs. handle_data s' h = handle_data s h) \<and>
           handle_data s' (request_handle q) = Some (request_buffer q) \<and>
           references pool s' (request_handle q # hs)"
proof -
  obtain m c i offset width height stride format
    where q: "q = (m, c, i, offset, width, height, stride, format)"
    by (cases q) auto
  from ok q have f: "format = WL_SHM_FORMAT_ARGB8888 \<or> format = WL_SHM_FORMAT_XRGB8888"
    and b: "bounds_check offset width height stride (pool_size pl) = Inr False"
    and m: "m \<noteq> NULL" and c: "c \<noteq> NULL" by simp_all
  from fresh q have cf: "c \<notin> set hs" and mf: "Some m \<notin> set (map (handle_data s) hs)"
    by (simp_all add: request_handle_def request_buffer_def)
  let ?b = "\<lparr>buffer_resource = c, buffer_width = width,
                      buffer_height = height, buffer_stride = stride,
                      buffer_format = format, buffer_offset = offset,
                      buffer_pool = resource_data r\<rparr>"
  let ?s' = "s\<lparr>pools := (pools s)(resource_data r \<mapsto>
                     pl\<lparr>pool_refcount := pool_refcount pl + 1\<rparr>),
                buffers := (buffers s)(m \<mapsto> ?b),
                resources := (resources s)(c \<mapsto>
                     \<lparr>resource_interface = wl_buffer_interface,
                      resource_implementation = shm_buffer_interface,
                      resource_data = m,
                      resource_destroy = destroy_buffer_callback\<rparr>)\<rparr>"
  have pl': "pools s (resource_data r) = Some pl" using pl pr(3) by simp
  have run: "create_one client resource q s = Inr ([Malloc sizeof_wl_shm_buffer], ?s')"
    unfolding q create_one.simps by (rule accepted_request[OF pr(2) pl' f b m c])
  have cne: "c \<noteq> resource" using cf pr(1) by auto
  have same: "handle_data ?s' h = handle_data s h" if "h \<in> set hs" for h
    using that cf by (auto simp: handle_data_def)
  have new: "handle_data ?s' c = Some m" by (simp add: handle_data_def)
  from refs have d: "distinct (map (handle_data s) hs)"
    and hr: "\<forall>x \<in> set hs. holds_reference pool s x" by (simp_all add: references_def)
  have eq: "map (handle_data ?s') hs = map (handle_data s) hs"
    using same by (simp add: map_eq_conv)
  have d': "distinct (map (handle_data ?s') (c # hs))"
  proof -
    have "Some m \<notin> set (map (handle_data ?s') hs)" unfolding eq by (rule mf)
    moreover have "distinct (map (handle_data ?s') hs)" unfolding eq by (rule d)
    ultimately show ?thesis using new by simp
  qed
  have mp: "m \<noteq> pool"
  proof
    assume "m = pool"
    then have "handle_data s resource = Some m" using pr(2,3) by (simp add: handle_data_def)
    then have "Some m \<in> set (map (handle_data s) hs)" using pr(1) by force
    with mf show False by simp
  qed
  have hc: "holds_reference pool ?s' c"
    using pr(3) mp by (simp add: holds_reference_def)
  have hx: "holds_reference pool ?s' x" if x: "x \<in> set hs" for x
  proof -
    from hr x have h0: "holds_reference pool s x" by simp
    then obtain rr where rr: "resources s x = Some rr"
      by (auto simp: holds_reference_def split: option.splits)
    have xc: "x \<noteq> c" using x cf by auto
    have "handle_data s x = Some (resource_data rr)" using rr by (simp add: handle_data_def)
    then have "Some (resource_data rr) \<in> set (map (handle_data s) hs)" using x by force
    then have "resource_data rr \<noteq> m" using mf by auto
    then show ?thesis using h0 rr xc
      by (simp add: holds_reference_def split: destructor.splits)
  qed
  have refs': "references pool ?s' (c # hs)"
    using d' hc hx by (simp add: references_def)
  have rh: "request_handle q = c" and rb: "request_buffer q = m"
    by (simp_all add: q request_handle_def request_buffer_def)
  have p': "pools ?s' pool = Some (pl\<lparr>pool_refcount := pool_refcount pl + 1\<rparr>)"
    using pr(3) by simp
  have r': "resources ?s' resource = Some r" using cne pr(2) by simp
  show ?thesis
    apply (rule exI[of _ ?s'])
    using run p' r' same new refs' unfolding rh rb by blast
qed

lemma create_run:
  assumes "references pool s hs"
    and "resource \<in> set hs" "resources s resource = Some r" "resource_data r = pool"
    and "pools s pool = Some pl"
    and "\<forall>q \<in> set qs. creation_succeeds (pool_size pl) q"
    and "distinct (map request_handle qs)" "set (map request_handle qs) \<inter> set hs = {}"
    and "distinct (map request_buffer qs)"
    and "\<forall>q \<in> set qs. Some (request_buffer q) \<notin> set (map (handle_data s) hs)"
  shows "\<exists>ev s'. create_buffers client resource qs s = Inr (ev, s') \<and> unmaps ev = [] \<and>
           pools s' pool = Some (pl\<lparr>pool_refcount := pool_refcount pl + of_nat (length qs)\<rparr>) \<and>
           references pool s' (rev (map request_handle qs) @ hs)"
  using assms
proof (induction qs arbitrary: s hs pl)
  case Nil
  then show ?case by simp
next
  case (Cons q qs)
  have ok: "creation_succeeds (pool_size pl) q" using Cons.prems(6) by simp
  have f1: "request_handle q \<notin> set hs" using Cons.prems(8) by auto
  have f2: "Some (request_buffer q) \<notin> set (map (handle_data s) hs)" using Cons.prems(10) by simp
  from create_step[OF Cons.prems(1,2,3,4,5) ok f1 f2, of client]
  obtain s1 where st: "create_one client resource q s = Inr ([Malloc sizeof_wl_shm_buffer], s1)"
    "pools s1 pool = Some (pl\<lparr>pool_refcount := pool_refcount pl + 1\<rparr>)"
    "resources s1 resource = Some r"
    "\<forall>h \<in> set hs. handle_data s1 h = handle_data s h"
    "handle_data s1 (request_handle q) = Some (request_buffer q)"
    "references pool s1 (request_handle q # hs)" by blast
  let ?pl1 = "pl\<lparr>pool_refcount := pool_refcount pl + 1\<rparr>"
  let ?hs1 = "request_handle q # hs"
  have a2: "resource \<in> set ?hs1" using Cons.prems(2) by simp
  have a6: "\<forall>q \<in> set qs. creation_succeeds (pool_size ?pl1) q" using Cons.prems(6) by simp
  have a7: "distinct (map request_handle qs)" using Cons.prems(7) by simp
  have a8: "set (map request_handle qs) \<inter> set ?hs1 = {}" using Cons.prems(7,8) by auto
  have a9: "distinct (map request_buffer qs)" using Cons.prems(9) by simp
  have eq: "map (handle_data s1) hs = map (handle_data s) hs"
    using st(4) by (simp add: map_eq_conv)
  have a10: "\<forall>q' \<in> set qs. Some (request_buffer q') \<notin> set (map (handle_data s1) ?hs1)"
  proof
    fix q' assume q': "q' \<in> set qs"
    have "request_buffer q \<notin> set (map request_buffer qs)" using Cons.prems(9) by simp
    moreover have "request_buffer q' \<in> set (map request_buffer qs)" using q' by simp
    ultimately have "request_buffer q' \<noteq> request_buffer q" by metis
    moreover have "Some (request_buffer q') \<notin> set (map (handle_data s) hs)"
      using Cons.prems(10) q' by simp
    moreover have "Some (request_buffer q') \<notin> set (map (handle_data s1) hs)"
      unfolding eq using Cons.prems(10) q' by simp
    ultimately show "Some (request_buffer q') \<notin> set (map (handle_data s1) ?hs1)"
      using st(5) by simp
  qed
  from Cons.IH[OF st(6) a2 st(3) Cons.prems(4) st(2) a6 a7 a8 a9 a10]
  obtain ev s' where run: "create_buffers client resource qs s1 = Inr (ev, s')"
    "unmaps ev = []"
    "pools s' pool = Some (?pl1\<lparr>pool_refcount := pool_refcount ?pl1 + of_nat (length qs)\<rparr>)"
    "references pool s' (rev (map request_handle qs) @ ?hs1)" by blast
  have "create_buffers client resource (q # qs) s = Inr ([Malloc sizeof_wl_shm_buffer] @ ev, s')"
    using st(1) run(1) by simp
  moreover have "unmaps ([Malloc sizeof_wl_shm_buffer] @ ev) = []" using run(2) by simp
  moreover have "pools s' pool =
      Some (pl\<lparr>pool_refcount := pool_refcount pl + of_nat (length (q # qs))\<rparr>)"
    using run(3) by (simp add: add.assoc add.commute)
  moreover have "references pool s' (rev (map request_handle (q # qs)) @ hs)"
    using run(4) by simp
  ultimately show ?case by blast
qed

lemma created_pool:
  assumes "malloc_result \<noteq> NULL" and "\<not> size_new \<le>s 0" and "mmap_result \<noteq> MAP_FAILED"
    and "create_result \<noteq> NULL"
  shows "shm_create_pool malloc_result mmap_result create_result client resource id' fd size_new s =
           ([Malloc sizeof_wl_shm_pool, Mmap size_new fd, Close fd],
            s\<lparr>pools := (pools s)(malloc_result \<mapsto>
                  \<lparr>pool_resource = create_result, pool_refcount = 1,
                   pool_data = mmap_result, pool_size = size_new\<rparr>),
              resources := (resources s)(create_result \<mapsto>
                  \<lparr>resource_interface = wl_shm_pool_interface,
                   resource_implementation = shm_pool_interface,
                   resource_data = malloc_result,
                   resource_destroy = destroy_pool_callback\<rparr>)\<rparr>)"
  using assms by (simp add: shm_create_pool_def Let_def)

lemma refcount_of_count:
  assumes "n < 2147483647"
  shows "unat (1 + of_nat n :: int32) = Suc n"
proof -
  have "(1 + of_nat n :: int32) = of_nat (Suc n)" by simp
  then have "unat (1 + of_nat n :: int32) = Suc n mod 2 ^ LENGTH(32)"
    by (simp only: unat_of_nat)
  moreover have "Suc n < 2 ^ 32" using assms by simp
  ultimately show ?thesis by simp
qed

lemma sint_of_small_unat:
  fixes c :: int32
  assumes "unat c \<le> 2147483647"
  shows "sint c = int (unat c)"
proof -
  have eq: "uint c = int (unat c)" by simp
  have "int (unat c) < 2147483648" using assms by linarith
  then have "uint c < 2147483648" by (simp only: eq)
  then have hi: "uint c < 2 ^ 31" by simp
  have "0 \<le> uint c" by simp
  then have "- 2147483648 \<le> uint c" by linarith
  then have lo: "- (2 ^ 31) \<le> uint c" by simp
  have "signed_take_bit 31 (uint c) = uint c"
    using lo hi by (rule signed_take_bit_int_eq_self)
  then have "sint c = uint c" by (simp add: sint_uint)
  then show ?thesis by (simp only: eq)
qed

text \<open>
  Claim C2: a pool is created (reference count 1), \<open>N\<close> creation requests on its handle
  succeed (each adds 1), and then the pool handle and the \<open>N\<close> buffer handles are destroyed
  in any order \<open>ds\<close>. No step faults. Neither creating the pool nor creating the buffers
  unmaps anything. After any \<open>k < N + 1\<close> destructions nothing has been unmapped, the pool
  object has not been freed and its count is \<open>N + 1 - k\<close>; the whole run unmaps exactly one
  region, the pool's, frees the pool object exactly once, and leaves no pool object. The
  allocator hands out distinct objects and distinct handles, and \<open>N + 1\<close> fits an \<open>int\<close>.
\<close>

theorem pool_released_with_last_reference:
  assumes "malloc_result \<noteq> NULL" and "\<not> size_new \<le>s 0" and "mmap_result \<noteq> MAP_FAILED"
    and "create_result \<noteq> NULL"
    and "\<forall>q \<in> set qs. creation_succeeds size_new q"
    and "distinct (create_result # map request_handle qs)"
    and "distinct (malloc_result # map request_buffer qs)"
    and "length qs < 2147483647"
    and "mset ds = mset (create_result # map request_handle qs)"
  shows "\<exists>ev0 s0 ev1 s1 ev2 s2.
           shm_create_pool malloc_result mmap_result create_result client resource id' fd
             size_new s = (ev0, s0) \<and>
           map_option pool_refcount (pools s0 malloc_result) = Some 1 \<and>
           create_buffers client create_result qs s0 = Inr (ev1, s1) \<and>
           map_option pool_refcount (pools s1 malloc_result) = Some (1 + of_nat (length qs)) \<and>
           unmaps (ev0 @ ev1) = [] \<and>
           (\<forall>k < length ds. \<exists>ev s'.
              destroy_handles (take k ds) s1 = Inr (ev, s') \<and>
              unmaps ev = [] \<and> Free malloc_result \<notin> set ev \<and>
              (\<exists>pl'. pools s' malloc_result = Some pl' \<and>
                     sint (pool_refcount pl') = int (length ds - k))) \<and>
           destroy_handles ds s1 = Inr (ev2, s2) \<and>
           unmaps ev2 = [(mmap_result, size_new)] \<and>
           count_list ev2 (Free malloc_result) = 1 \<and>
           pools s2 malloc_result = None"
proof -
  let ?pl0 = "\<lparr>pool_resource = create_result, pool_refcount = 1,
                pool_data = mmap_result, pool_size = size_new\<rparr>"
  let ?r = "\<lparr>resource_interface = wl_shm_pool_interface,
             resource_implementation = shm_pool_interface,
             resource_data = malloc_result,
             resource_destroy = destroy_pool_callback\<rparr>"
  let ?s0 = "s\<lparr>pools := (pools s)(malloc_result \<mapsto> ?pl0),
               resources := (resources s)(create_result \<mapsto> ?r)\<rparr>"
  let ?ev0 = "[Malloc sizeof_wl_shm_pool, Mmap size_new fd, Close fd]"
  let ?n = "length qs"
  have c0: "shm_create_pool malloc_result mmap_result create_result client resource id' fd
             size_new s = (?ev0, ?s0)"
    by (rule created_pool[OF assms(1,2,3,4)])
  have refs0: "references malloc_result ?s0 [create_result]"
    by (simp add: references_def holds_reference_def)
  have pl0: "pools ?s0 malloc_result = Some ?pl0" by simp
  have r0: "resources ?s0 create_result = Some ?r" by simp
  have ok: "\<forall>q \<in> set qs. creation_succeeds (pool_size ?pl0) q" using assms(5) by simp
  have dh: "distinct (map request_handle qs)" using assms(6) by simp
  have ih: "set (map request_handle qs) \<inter> set [create_result] = {}" using assms(6) by auto
  have db: "distinct (map request_buffer qs)" using assms(7) by simp
  have fb: "\<forall>q \<in> set qs. Some (request_buffer q) \<notin> set (map (handle_data ?s0) [create_result])"
    using assms(7) by (auto simp: handle_data_def)
  from create_run[OF refs0 _ r0 _ pl0 ok dh ih db fb, of client]
  obtain ev1 s1 where c1: "create_buffers client create_result qs ?s0 = Inr (ev1, s1)"
    and u1: "unmaps ev1 = []"
    and p1: "pools s1 malloc_result = Some (?pl0\<lparr>pool_refcount := 1 + of_nat ?n\<rparr>)"
    and refs1: "references malloc_result s1 (rev (map request_handle qs) @ [create_result])"
    by auto
  let ?pl1 = "?pl0\<lparr>pool_refcount := 1 + of_nat ?n\<rparr>"
  have "mset ds = mset (rev (map request_handle qs) @ [create_result])"
    using assms(9) by simp
  with refs1 have refsd: "references malloc_result s1 ds" by (rule references_permute)
  have len: "length ds = Suc ?n"
    using assms(9) by (metis length_Cons length_map size_mset)
  have rc: "unat (pool_refcount ?pl1) = length ds"
    using refcount_of_count[OF assms(8)] len by simp
  have prefix: "\<exists>ev s'. destroy_handles (take k ds) s1 = Inr (ev, s') \<and>
              unmaps ev = [] \<and> Free malloc_result \<notin> set ev \<and>
              (\<exists>pl'. pools s' malloc_result = Some pl' \<and>
                     sint (pool_refcount pl') = int (length ds - k))" if k: "k < length ds" for k
  proof -
    have kl: "k \<le> length ds" using k by simp
    from destroy_run[OF refsd p1 assms(1) rc kl] k
    obtain ev s' pl' where "destroy_handles (take k ds) s1 = Inr (ev, s')" "unmaps ev = []"
      "Free malloc_result \<notin> set ev" "pools s' malloc_result = Some pl'"
      and u: "unat (pool_refcount pl') = length ds - k" by auto
    moreover have "unat (pool_refcount pl') \<le> 2147483647" using u len assms(8) by simp
    then have "sint (pool_refcount pl') = int (length ds - k)"
      using sint_of_small_unat[of "pool_refcount pl'"] u by simp
    ultimately show ?thesis by blast
  qed
  have ne: "ds \<noteq> []" using len by auto
  from destroy_run[OF refsd p1 assms(1) rc order_refl] ne
  obtain ev2 s2 where full: "destroy_handles ds s1 = Inr (ev2, s2)"
    "unmaps ev2 = [(mmap_result, size_new)]" "count_list ev2 (Free malloc_result) = 1"
    "pools s2 malloc_result = None" by auto
  have u01: "unmaps (?ev0 @ ev1) = []" using u1 by simp
  show ?thesis
    apply (rule exI[of _ ?ev0])
    apply (rule exI[of _ ?s0])
    apply (rule exI[of _ ev1])
    apply (rule exI[of _ s1])
    apply (rule exI[of _ ev2])
    apply (rule exI[of _ s2])
    apply (intro conjI allI impI)
    apply (rule c0)
    apply simp
    apply (rule c1)
    apply (simp add: p1)
    apply (rule u01)
    apply (erule prefix)
    apply (rule full(1))
    apply (rule full(2))
    apply (rule full(3))
    apply (rule full(4))
    done
qed

theorem pool_released_with_last_reference_witness:
  "\<exists>ev0 s0 ev1 s1 ev2 s2.
     shm_create_pool 4096 65536 16 1 8 2 5 4096 empty_state = (ev0, s0) \<and>
     map_option pool_refcount (pools s0 4096) = Some 1 \<and>
     create_buffers 1 16 example_requests s0 = Inr (ev1, s1) \<and>
     map_option pool_refcount (pools s1 4096) = Some 3 \<and>
     unmaps (ev0 @ ev1) = [] \<and>
     (\<exists>ev s'. destroy_handles [] s1 = Inr (ev, s') \<and> unmaps ev = [] \<and>
        map_option (\<lambda>pl. sint (pool_refcount pl)) (pools s' 4096) = Some 3) \<and>
     (\<exists>ev s'. destroy_handles [48] s1 = Inr (ev, s') \<and> unmaps ev = [] \<and>
        map_option (\<lambda>pl. sint (pool_refcount pl)) (pools s' 4096) = Some 2) \<and>
     (\<exists>ev s'. destroy_handles [48, 16] s1 = Inr (ev, s') \<and> unmaps ev = [] \<and>
        map_option (\<lambda>pl. sint (pool_refcount pl)) (pools s' 4096) = Some 1) \<and>
     destroy_handles [48, 16, 32] s1 = Inr (ev2, s2) \<and>
     unmaps ev2 = [(65536, 4096)] \<and>
     count_list ev2 (Free 4096) = 1 \<and>
     pools s2 4096 = None"
proof -
  have hyp: "(4096 :: addr) \<noteq> NULL" "\<not> (4096 :: int32) \<le>s 0" "(65536 :: addr) \<noteq> MAP_FAILED"
    "(16 :: addr) \<noteq> NULL"
    "\<forall>q \<in> set example_requests. creation_succeeds 4096 q"
    "distinct (16 # map request_handle example_requests)"
    "distinct (4096 # map request_buffer example_requests)"
    "length example_requests < 2147483647"
    "mset [48, 16, 32 :: addr] = mset (16 # map request_handle example_requests)"
    by (simp_all add: NULL_def MAP_FAILED_def word_sle_eq example_requests_def
        request_handle_def request_buffer_def bounds_check_def INT32_MAX_def
        signed_divide_int_def word_sless_alt)
  from pool_released_with_last_reference [OF hyp, of 1 8 2 5 empty_state]
  obtain ev0 s0 ev1 s1 ev2 s2 where
    a: "shm_create_pool 4096 65536 16 1 8 2 5 4096 empty_state = (ev0, s0)"
      "map_option pool_refcount (pools s0 4096) = Some 1"
      "create_buffers 1 16 example_requests s0 = Inr (ev1, s1)"
      "map_option pool_refcount (pools s1 4096) = Some (1 + of_nat (length example_requests))"
      "unmaps (ev0 @ ev1) = []"
    and p: "\<forall>k < length [48, 16, 32 :: addr]. \<exists>ev s'.
              destroy_handles (take k [48, 16, 32]) s1 = Inr (ev, s') \<and>
              unmaps ev = [] \<and> Free 4096 \<notin> set ev \<and>
              (\<exists>pl'. pools s' 4096 = Some pl' \<and>
                     sint (pool_refcount pl') = int (length [48, 16, 32 :: addr] - k))"
    and f: "destroy_handles [48, 16, 32] s1 = Inr (ev2, s2)"
      "unmaps ev2 = [(65536, 4096)]" "count_list ev2 (Free 4096) = 1" "pools s2 4096 = None"
    by blast
  have k0: "\<exists>ev s'. destroy_handles [] s1 = Inr (ev, s') \<and> unmaps ev = [] \<and>
        map_option (\<lambda>pl. sint (pool_refcount pl)) (pools s' 4096) = Some 3"
    using p[rule_format, of 0] by auto
  have k1: "\<exists>ev s'. destroy_handles [48] s1 = Inr (ev, s') \<and> unmaps ev = [] \<and>
        map_option (\<lambda>pl. sint (pool_refcount pl)) (pools s' 4096) = Some 2"
    using p[rule_format, of 1] by auto
  have k2: "\<exists>ev s'. destroy_handles [48, 16] s1 = Inr (ev, s') \<and> unmaps ev = [] \<and>
        map_option (\<lambda>pl. sint (pool_refcount pl)) (pools s' 4096) = Some 1"
    using p[rule_format, of 2] by (auto simp: numeral_2_eq_2)
  have n: "map_option pool_refcount (pools s1 4096) = Some 3"
    using a(4) by (simp add: example_requests_def)
  show ?thesis using a(1,2,3,5) n k0 k1 k2 f by blast
qed

end
